theory Spec2Isabelle
  imports Main
begin

section \<open>Exceptions and effects\<close>

text \<open>
  The module \<^verbatim>\<open>psutil/_pssunos.py\<close> is Python code that talks to the operating system
  (the \<^verbatim>\<open>/proc\<close> file system, the C extension \<^verbatim>\<open>_psutil_sunos\<close>, \<^verbatim>\<open>getpriority\<close>,
  a \<^verbatim>\<open>pfiles\<close> subprocess) and reports failures by raising exceptions.

  An exception is a value of type \<open>exn\<close>. \<^verbatim>\<open>EnvironmentError\<close> carries the class of the
  instance and its \<^verbatim>\<open>errno\<close>: in Python 2 \<^verbatim>\<open>OSError\<close> and \<^verbatim>\<open>IOError\<close> are two subclasses
  of \<^verbatim>\<open>EnvironmentError\<close>, so \<^verbatim>\<open>except EnvironmentError\<close> catches every class and
  \<^verbatim>\<open>except OSError\<close> only \<open>OSError_class\<close>; in Python 3 the three names are one class
  and every instance is an \<open>OSError_class\<close> one. \<^verbatim>\<open>NoSuchProcess\<close> and \<^verbatim>\<open>AccessDenied\<close>
  (from \<^verbatim>\<open>psutil._error\<close>, where they derive from \<^verbatim>\<open>Exception\<close> and not from
  \<^verbatim>\<open>EnvironmentError\<close>) carry the pid and the process name they are raised with.
  The message texts of \<^verbatim>\<open>ValueError\<close> and \<^verbatim>\<open>RuntimeError\<close> are not modelled: the
  first carries the offending argument, the second the standard error text.
\<close>

datatype env_class = EnvironmentError_class | OSError_class | IOError_class

datatype exn =
    EnvironmentError env_class int
  | NoSuchProcess int "string option"
  | AccessDenied int "string option"
  | ValueError string
  | KeyError int
  | IndexError
  | AttributeError string
  | RuntimeError string
  | OtherException string

text \<open>
  A computation takes the state of the world and returns either the exception it raised
  or its result, with the state of the world afterwards. The type \<open>'w\<close> of the world is
  never inspected by the code.
\<close>

type_synonym ('w, 'a) io = "'w \<Rightarrow> (exn + 'a) \<times> 'w"

definition io_return :: "'a \<Rightarrow> ('w, 'a) io" where
  "io_return x = (\<lambda>w. (Inr x, w))"

definition io_raise :: "exn \<Rightarrow> ('w, 'a) io" where
  "io_raise e = (\<lambda>w. (Inl e, w))"

definition io_bind :: "('w, 'a) io \<Rightarrow> ('a \<Rightarrow> ('w, 'b) io) \<Rightarrow> ('w, 'b) io" where
  "io_bind m f = (\<lambda>w. case m w of (Inl e, w') \<Rightarrow> (Inl e, w') | (Inr x, w') \<Rightarrow> f x w')"

text \<open>The four \<^verbatim>\<open>errno\<close> codes the module names (their POSIX values).\<close>

definition EPERM :: int where "EPERM = 1"
definition ENOENT :: int where "ENOENT = 2"
definition ESRCH :: int where "ESRCH = 3"
definition EACCES :: int where "EACCES = 13"

section \<open>The operating system and the platform constants\<close>

text \<open>
  Everything the module imports and calls but does not define: the functions of the C
  extensions \<^verbatim>\<open>_psutil_sunos\<close> and \<^verbatim>\<open>_psutil_posix\<close>, of \<^verbatim>\<open>os\<close>, of \<^verbatim>\<open>psutil._psposix\<close>
  and \<^verbatim>\<open>psutil._common\<close>, and \<^verbatim>\<open>subprocess.Popen(...).communicate()\<close> (the field
  \<open>popen_communicate\<close> returns the return code, standard output and standard error,
  already decoded). Each is a parameter: a function of its arguments and the world.
  The type \<open>'f\<close> is that of the CPU times of a thread, \<open>'a\<close> that of a socket address as
  the C extension returns it.
\<close>

record ('w, 'f, 'a) sys =
  get_proc_name_and_args :: "int \<Rightarrow> ('w, string \<times> string) io"
  getpriority :: "int \<Rightarrow> ('w, int) io"
  setpriority :: "int \<Rightarrow> int \<Rightarrow> ('w, unit) io"
  psposix_pid_exists :: "int \<Rightarrow> ('w, bool) io"
  os_listdir :: "string \<Rightarrow> ('w, string list) io"
  os_readlink :: "string \<Rightarrow> ('w, string) io"
  os_path_islink :: "string \<Rightarrow> ('w, bool) io"
  os_stat :: "string \<Rightarrow> ('w, unit) io"
  isfile_strict :: "string \<Rightarrow> ('w, bool) io"
  query_process_thread :: "int \<Rightarrow> int \<Rightarrow> ('w, 'f \<times> 'f) io"
  get_proc_memory_maps ::
    "int \<Rightarrow> ('w, (int \<times> int \<times> string \<times> string \<times> int \<times> int \<times> int) list) io"
  get_proc_connections ::
    "int \<Rightarrow> int list \<Rightarrow> int list \<Rightarrow> ('w, (int \<times> int \<times> int \<times> 'a \<times> 'a \<times> int) list) io"
  popen_communicate :: "string \<Rightarrow> ('w, int \<times> string \<times> string) io"

section \<open>The error classifier\<close>

text \<open>
  \<^verbatim>\<open>class Process\<close> has \<^verbatim>\<open>__slots__ = ["pid", "_process_name"]\<close>; \<^verbatim>\<open>__init__\<close> stores the
  pid and sets the name to \<^verbatim>\<open>None\<close>, and returns.
\<close>

record Process =
  pid :: int
  process_name :: "string option"

definition Process_init :: "int \<Rightarrow> ('w, Process) io" where
  "Process_init p = io_return \<lparr>pid = p, process_name = None\<rparr>"

text \<open>
  \<^verbatim>\<open>wrap_exceptions(callable)\<close> returns \<^verbatim>\<open>wrapper\<close>, which calls \<^verbatim>\<open>callable(self, ...)\<close>
  under \<^verbatim>\<open>try\<close> / \<^verbatim>\<open>except EnvironmentError\<close>. The further arguments of the callable are
  applied before it is wrapped.
\<close>

definition wrap_exceptions :: "(Process \<Rightarrow> ('w, 'r) io) \<Rightarrow> Process \<Rightarrow> ('w, 'r) io" where
  "wrap_exceptions callable self = (\<lambda>w.
     case callable self w of
       (Inr r, w') \<Rightarrow> (Inr r, w')
     | (Inl (EnvironmentError cls err), w') \<Rightarrow>
         if err \<in> set [ENOENT, ESRCH] then
           (Inl (NoSuchProcess (pid self) (process_name self)), w')
         else if err \<in> set [EPERM, EACCES] then
           (Inl (AccessDenied (pid self) (process_name self)), w')
         else (Inl (EnvironmentError cls err), w')
     | (Inl e, w') \<Rightarrow> (Inl e, w'))"

section \<open>Single-value accessors\<close>

definition get_name :: "('w, 'f, 'a) sys \<Rightarrow> Process \<Rightarrow> ('w, string) io" where
  "get_name sys = wrap_exceptions (\<lambda>self.
     io_bind (get_proc_name_and_args sys (pid self)) (\<lambda>r. io_return (fst r)))"

text \<open>\<^verbatim>\<open>s.split(c)\<close> for a separator of one character.\<close>

fun str_split :: "char \<Rightarrow> string \<Rightarrow> string list" where
  "str_split c [] = [[]]"
| "str_split c (x # xs) =
     (if x = c then [] # str_split c xs
      else (case str_split c xs of [] \<Rightarrow> [[x]] | y # ys \<Rightarrow> (x # y) # ys))"

definition get_cmdline :: "('w, 'f, 'a) sys \<Rightarrow> Process \<Rightarrow> ('w, string list) io" where
  "get_cmdline sys = wrap_exceptions (\<lambda>self.
     io_bind (get_proc_name_and_args sys (pid self))
       (\<lambda>r. io_return (str_split CHR '' '' (snd r))))"

text \<open>
  \<^verbatim>\<open>get_exe\<close> evaluates \<^verbatim>\<open>self.get_proc_cmdline()\<close>. An instance of a class with
  \<^verbatim>\<open>__slots__\<close> has no dictionary of its own, so the attribute is looked up among the
  slots and the names the class body binds (lines 216 to 514), listed here in the order
  of the source, and then in \<^verbatim>\<open>object\<close>, whose attributes all have names of the form
  \<^verbatim>\<open>__x__\<close>. A name that is not found raises \<^verbatim>\<open>AttributeError\<close>. What calling a bound
  method does is the parameter \<open>call\<close> of \<open>get_exe\<close>: it is given the name that was found.
\<close>

definition Process_attributes :: "string list" where
  "Process_attributes =
    [''__slots__'', ''pid'', ''_process_name'', ''__init__'', ''get_name'', ''get_exe'',
     ''get_cmdline'', ''get_create_time'', ''get_num_threads'', ''get_nice'',
     ''set_proc_nice'', ''get_ppid'', ''get_uids'', ''get_gids'', ''get_cpu_times'',
     ''get_terminal'', ''get_cwd'', ''get_memory_info'', ''get_ext_memory_info'',
     ''get_status'', ''get_threads'', ''get_open_files'', ''_get_unix_sockets'',
     ''get_connections'', ''nt_mmap_grouped'', ''nt_mmap_ext'', ''get_memory_maps'',
     ''get_num_fds'', ''get_num_ctx_switches'', ''process_wait'']"

definition Process_getattr :: "string \<Rightarrow> exn + string" where
  "Process_getattr name =
     (if name \<in> set Process_attributes then Inr name else Inl (AttributeError name))"

definition get_exe :: "(string \<Rightarrow> Process \<Rightarrow> ('w, 'r) io) \<Rightarrow> Process \<Rightarrow> ('w, string) io" where
  "get_exe call = wrap_exceptions (\<lambda>self.
     case Process_getattr ''get_proc_cmdline'' of
       Inl e \<Rightarrow> io_raise e
     | Inr m \<Rightarrow> io_bind (call m self) (\<lambda>_. io_return ''''))"

text \<open>\<^verbatim>\<open>pid_exists\<close> of this module forwards to \<^verbatim>\<open>_psposix.pid_exists\<close>.\<close>

definition pid_exists :: "('w, 'f, 'a) sys \<Rightarrow> int \<Rightarrow> ('w, bool) io" where
  "pid_exists sys p = psposix_pid_exists sys p"

text \<open>
  \<^verbatim>\<open>get_nice\<close>: the inner \<^verbatim>\<open>try\<close> catches \<^verbatim>\<open>EnvironmentError\<close>; for \<^verbatim>\<open>ENOENT\<close> and \<^verbatim>\<open>ESRCH\<close>
  it asks \<^verbatim>\<open>pid_exists\<close> and raises \<^verbatim>\<open>AccessDenied\<close> when the process is there;
  otherwise the bare \<^verbatim>\<open>raise\<close> re-raises what was caught.
\<close>

definition get_nice :: "('w, 'f, 'a) sys \<Rightarrow> Process \<Rightarrow> ('w, int) io" where
  "get_nice sys = wrap_exceptions (\<lambda>self w.
     case getpriority sys (pid self) w of
       (Inr r, w1) \<Rightarrow> (Inr r, w1)
     | (Inl (EnvironmentError cls err), w1) \<Rightarrow>
         if err \<in> set [ENOENT, ESRCH] then
           (case pid_exists sys (pid self) w1 of
              (Inl e, w2) \<Rightarrow> (Inl e, w2)
            | (Inr alive, w2) \<Rightarrow>
                if alive then (Inl (AccessDenied (pid self) (process_name self)), w2)
                else (Inl (EnvironmentError cls err), w2))
         else (Inl (EnvironmentError cls err), w1)
     | (Inl e, w1) \<Rightarrow> (Inl e, w1))"

definition set_proc_nice :: "('w, 'f, 'a) sys \<Rightarrow> Process \<Rightarrow> int \<Rightarrow> ('w, unit) io" where
  "set_proc_nice sys self0 val = wrap_exceptions (\<lambda>self.
     if pid self \<in> set [2, 3] then io_raise (AccessDenied (pid self) (process_name self))
     else setpriority sys (pid self) val) self0"

section \<open>Strings and paths\<close>

text \<open>
  \<^verbatim>\<open>'%d' % n\<close> and \<^verbatim>\<open>'%s' % n\<close> for an integer \<open>n\<close>: its decimal digits, with a minus
  sign when it is negative.
\<close>

fun digits :: "nat \<Rightarrow> string" where
  "digits n =
     (if n < 10 then [''0123456789'' ! n]
      else digits (n div 10) @ [''0123456789'' ! (n mod 10)])"

declare digits.simps [simp del]

definition str_int :: "int \<Rightarrow> string" where
  "str_int i = (if i < 0 then CHR ''-'' # digits (nat (- i)) else digits (nat i))"

text \<open>\<^verbatim>\<open>hex(n)\<close>, and \<^verbatim>\<open>toaddr\<close> of \<^verbatim>\<open>get_memory_maps\<close>:
  \<^verbatim>\<open>'%s-%s' % (hex(start)[2:].strip('L'), hex(end)[2:].strip('L'))\<close>.
  (Python 2 ends the \<^verbatim>\<open>hex\<close> of a long integer with \<^verbatim>\<open>L\<close>, which is what the
  \<^verbatim>\<open>strip\<close> is there to remove; \<open>py_hex\<close> writes no such suffix.)\<close>

fun hexdigits :: "nat \<Rightarrow> string" where
  "hexdigits n =
     (if n < 16 then [''0123456789abcdef'' ! n]
      else hexdigits (n div 16) @ [''0123456789abcdef'' ! (n mod 16)])"

declare hexdigits.simps [simp del]

definition py_hex :: "int \<Rightarrow> string" where
  "py_hex i = (if i < 0 then ''-0x'' @ hexdigits (nat (- i)) else ''0x'' @ hexdigits (nat i))"

definition str_strip_chars :: "char list \<Rightarrow> string \<Rightarrow> string" where
  "str_strip_chars cs s =
     rev (dropWhile (\<lambda>c. c \<in> set cs) (rev (dropWhile (\<lambda>c. c \<in> set cs) s)))"

definition toaddr :: "int \<Rightarrow> int \<Rightarrow> string" where
  "toaddr start end' =
     str_strip_chars ''L'' (drop 2 (py_hex start)) @ ''-'' @
     str_strip_chars ''L'' (drop 2 (py_hex end'))"

text \<open>\<^verbatim>\<open>s.startswith(p)\<close>, \<^verbatim>\<open>p in s\<close> for strings, and \<^verbatim>\<open>os.path.join(a, b)\<close> of
  \<^verbatim>\<open>posixpath\<close>.\<close>

definition startswith :: "string \<Rightarrow> string \<Rightarrow> bool" where
  "startswith s p = (take (length p) s = p)"

fun str_contains :: "string \<Rightarrow> string \<Rightarrow> bool" where
  "str_contains [] p = (p = [])"
| "str_contains (x # xs) p = (startswith (x # xs) p \<or> str_contains xs p)"

definition os_path_join :: "string \<Rightarrow> string \<Rightarrow> string" where
  "os_path_join a b =
     (if startswith b ''/'' then b
      else if a = [] \<or> last a = CHR ''/'' then a @ b
      else a @ ''/'' @ b)"

text \<open>
  \<^verbatim>\<open>s.lstrip()\<close> and \<^verbatim>\<open>s.strip()\<close> remove white space: space, tab, line feed, carriage
  return, vertical tab and form feed (the white space of a Python 2 \<^verbatim>\<open>str\<close>).
  \<^verbatim>\<open>s.lower()\<close> maps the upper-case ASCII letters. \<^verbatim>\<open>s.split(c, n)\<close> splits at most
  \<open>n\<close> times.
\<close>

definition py_whitespace :: "char list" where
  "py_whitespace = [CHR '' '', CHR 0x09, CHR 0x0A, CHR 0x0D, CHR 0x0B, CHR 0x0C]"

definition str_lstrip :: "string \<Rightarrow> string" where
  "str_lstrip s = dropWhile (\<lambda>c. c \<in> set py_whitespace) s"

definition str_strip :: "string \<Rightarrow> string" where
  "str_strip s = str_strip_chars py_whitespace s"

definition str_lower :: "string \<Rightarrow> string" where
  "str_lower s =
     map (\<lambda>c. case map_of (zip ''ABCDEFGHIJKLMNOPQRSTUVWXYZ'' ''abcdefghijklmnopqrstuvwxyz'') c of
                 None \<Rightarrow> c | Some l \<Rightarrow> l) s"

fun str_split_max :: "char \<Rightarrow> nat \<Rightarrow> string \<Rightarrow> string list" where
  "str_split_max c 0 s = [s]"
| "str_split_max c (Suc n) [] = [[]]"
| "str_split_max c (Suc n) (x # xs) =
     (if x = c then [] # str_split_max c n xs
      else (case str_split_max c (Suc n) xs of [] \<Rightarrow> [[x]] | y # ys \<Rightarrow> (x # y) # ys))"

text \<open>\<^verbatim>\<open>xs[i]\<close>: a negative index counts from the end, an index out of range raises
  \<^verbatim>\<open>IndexError\<close>.\<close>

definition py_index :: "'x list \<Rightarrow> int \<Rightarrow> exn + 'x" where
  "py_index xs i =
     (if 0 \<le> i \<and> i < int (length xs) then Inr (xs ! nat i)
      else if i < 0 \<and> - int (length xs) \<le> i then Inr (xs ! nat (int (length xs) + i))
      else Inl IndexError)"

section \<open>Enumerators of threads, open files and memory maps\<close>

text \<open>
  \<^verbatim>\<open>int(s)\<close> applied to a directory entry is a parameter (it raises \<^verbatim>\<open>ValueError\<close> on a
  string that is no integer literal).

  \<^verbatim>\<open>get_threads\<close>: the loop over \<^verbatim>\<open>tids\<close> with its two variables \<^verbatim>\<open>ret\<close> and
  \<^verbatim>\<open>hit_enoent\<close>; the \<^verbatim>\<open>except EnvironmentError\<close> clause sets the flag and goes on to
  the next entry on \<^verbatim>\<open>ENOENT\<close> and re-raises anything else. A thread record
  \<^verbatim>\<open>nt_proc_thread(tid, utime, stime)\<close> is a triple.
\<close>

fun get_threads_loop ::
  "(string \<Rightarrow> exn + int) \<Rightarrow> ('w, 'f, 'a) sys \<Rightarrow> int \<Rightarrow> string list \<Rightarrow>
   (int \<times> 'f \<times> 'f) list \<Rightarrow> bool \<Rightarrow> ('w, (int \<times> 'f \<times> 'f) list \<times> bool) io" where
  "get_threads_loop py_int sys p [] ret hit_enoent w = (Inr (ret, hit_enoent), w)"
| "get_threads_loop py_int sys p (tid # tids) ret hit_enoent w =
     (case py_int tid of
        Inl e \<Rightarrow> (Inl e, w)
      | Inr tid' \<Rightarrow>
          (case query_process_thread sys p tid' w of
             (Inl (EnvironmentError cls err), w') \<Rightarrow>
               if err = ENOENT then get_threads_loop py_int sys p tids ret True w'
               else (Inl (EnvironmentError cls err), w')
           | (Inl e, w') \<Rightarrow> (Inl e, w')
           | (Inr (utime, stime), w') \<Rightarrow>
               get_threads_loop py_int sys p tids (ret @ [(tid', utime, stime)]) hit_enoent w'))"

definition get_threads ::
  "(string \<Rightarrow> exn + int) \<Rightarrow> ('w, 'f, 'a) sys \<Rightarrow> Process \<Rightarrow> ('w, (int \<times> 'f \<times> 'f) list) io" where
  "get_threads py_int sys = wrap_exceptions (\<lambda>self.
     io_bind (os_listdir sys (''/proc/'' @ str_int (pid self) @ ''/lwp'')) (\<lambda>tids.
     io_bind (get_threads_loop py_int sys (pid self) tids [] False) (\<lambda>(ret, hit_enoent).
       if hit_enoent then
         io_bind (os_stat sys (''/proc/'' @ str_int (pid self))) (\<lambda>_. io_return ret)
       else io_return ret)))"

text \<open>
  \<^verbatim>\<open>get_open_files\<close>: an entry of \<^verbatim>\<open>/proc/PID/fd\<close> is looked at only when
  \<^verbatim>\<open>/proc/PID/path/FD\<close> is a symbolic link; \<^verbatim>\<open>except OSError\<close> sets the flag on
  \<^verbatim>\<open>ENOENT\<close>; the record \<^verbatim>\<open>nt_proc_file(file, int(fd))\<close> is appended when
  \<^verbatim>\<open>isfile_strict(file)\<close> holds.
\<close>

fun get_open_files_loop ::
  "(string \<Rightarrow> exn + int) \<Rightarrow> ('w, 'f, 'a) sys \<Rightarrow> string \<Rightarrow> string list \<Rightarrow>
   (string \<times> int) list \<Rightarrow> bool \<Rightarrow> ('w, (string \<times> int) list \<times> bool) io" where
  "get_open_files_loop py_int sys pathdir [] retlist hit_enoent w = (Inr (retlist, hit_enoent), w)"
| "get_open_files_loop py_int sys pathdir (fd # fds) retlist hit_enoent w =
     (case os_path_islink sys (os_path_join pathdir fd) w of
        (Inl e, w1) \<Rightarrow> (Inl e, w1)
      | (Inr is_link, w1) \<Rightarrow>
          if is_link then
            (case os_readlink sys (os_path_join pathdir fd) w1 of
               (Inl (EnvironmentError OSError_class err), w2) \<Rightarrow>
                 if err = ENOENT then get_open_files_loop py_int sys pathdir fds retlist True w2
                 else (Inl (EnvironmentError OSError_class err), w2)
             | (Inl e, w2) \<Rightarrow> (Inl e, w2)
             | (Inr file, w2) \<Rightarrow>
                 (case isfile_strict sys file w2 of
                    (Inl e, w3) \<Rightarrow> (Inl e, w3)
                  | (Inr is_file, w3) \<Rightarrow>
                      if is_file then
                        (case py_int fd of
                           Inl e \<Rightarrow> (Inl e, w3)
                         | Inr n \<Rightarrow>
                             get_open_files_loop py_int sys pathdir fds
                               (retlist @ [(file, n)]) hit_enoent w3)
                      else get_open_files_loop py_int sys pathdir fds retlist hit_enoent w3))
          else get_open_files_loop py_int sys pathdir fds retlist hit_enoent w1)"

definition get_open_files ::
  "(string \<Rightarrow> exn + int) \<Rightarrow> ('w, 'f, 'a) sys \<Rightarrow> Process \<Rightarrow> ('w, (string \<times> int) list) io" where
  "get_open_files py_int sys = wrap_exceptions (\<lambda>self.
     io_bind (os_listdir sys (''/proc/'' @ str_int (pid self) @ ''/fd'')) (\<lambda>fds.
     io_bind (get_open_files_loop py_int sys (''/proc/'' @ str_int (pid self) @ ''/path'')
                fds [] False) (\<lambda>(retlist, hit_enoent).
       if hit_enoent then
         io_bind (os_stat sys (''/proc/'' @ str_int (pid self))) (\<lambda>_. io_return retlist)
       else io_return retlist)))"

text \<open>
  \<^verbatim>\<open>get_memory_maps\<close>: an item of the raw list is
  \<^verbatim>\<open>(addr, addrsize, perm, name, rss, anon, locked)\<close>. A name that does not start with
  \<^verbatim>\<open>[\<close> is resolved with \<^verbatim>\<open>os.readlink\<close>; on \<^verbatim>\<open>ENOENT\<close> the name becomes the path of
  the link itself and the flag is set. Every item is appended to \<^verbatim>\<open>retlist\<close>.
\<close>

fun get_memory_maps_loop ::
  "('w, 'f, 'a) sys \<Rightarrow> int \<Rightarrow> (int \<times> int \<times> string \<times> string \<times> int \<times> int \<times> int) list \<Rightarrow>
   (string \<times> string \<times> string \<times> int \<times> int \<times> int) list \<Rightarrow> bool \<Rightarrow>
   ('w, (string \<times> string \<times> string \<times> int \<times> int \<times> int) list \<times> bool) io" where
  "get_memory_maps_loop sys p [] retlist hit_enoent w = (Inr (retlist, hit_enoent), w)"
| "get_memory_maps_loop sys p ((addr, addrsize, perm, name, rss, anon, locked) # rawlist)
       retlist hit_enoent w =
     (if \<not> startswith name ''['' then
        (case os_readlink sys (''/proc/'' @ str_int p @ ''/path/'' @ name) w of
           (Inl (EnvironmentError OSError_class err), w') \<Rightarrow>
             if err = ENOENT then
               get_memory_maps_loop sys p rawlist
                 (retlist @ [(toaddr addr addrsize, perm,
                              ''/proc/'' @ str_int p @ ''/path/'' @ name, rss, anon, locked)])
                 True w'
             else (Inl (EnvironmentError OSError_class err), w')
         | (Inl e, w') \<Rightarrow> (Inl e, w')
         | (Inr name', w') \<Rightarrow>
             get_memory_maps_loop sys p rawlist
               (retlist @ [(toaddr addr addrsize, perm, name', rss, anon, locked)])
               hit_enoent w')
      else
        get_memory_maps_loop sys p rawlist
          (retlist @ [(toaddr addr addrsize, perm, name, rss, anon, locked)]) hit_enoent w)"

definition get_memory_maps ::
  "('w, 'f, 'a) sys \<Rightarrow> Process \<Rightarrow>
   ('w, (string \<times> string \<times> string \<times> int \<times> int \<times> int) list) io" where
  "get_memory_maps sys = wrap_exceptions (\<lambda>self.
     io_bind (get_proc_memory_maps sys (pid self)) (\<lambda>rawlist.
     io_bind (get_memory_maps_loop sys (pid self) rawlist [] False) (\<lambda>(retlist, hit_enoent).
       if hit_enoent then
         io_bind (os_stat sys (''/proc/'' @ str_int (pid self))) (\<lambda>_. io_return retlist)
       else io_return retlist)))"

section \<open>Connections\<close>

text \<open>
  The constants of \<^verbatim>\<open>_psutil_sunos\<close> and \<^verbatim>\<open>socket\<close> that the module reads, and the
  table \<^verbatim>\<open>conn_tmap\<close> of \<^verbatim>\<open>psutil._common\<close> (from a kind to its address families and
  socket types), are parameters: the fields of a \<open>platform\<close>.
\<close>

record platform =
  TCPS_ESTABLISHED :: int
  TCPS_SYN_SENT :: int
  TCPS_SYN_RCVD :: int
  TCPS_FIN_WAIT_1 :: int
  TCPS_FIN_WAIT_2 :: int
  TCPS_TIME_WAIT :: int
  TCPS_CLOSED :: int
  TCPS_CLOSE_WAIT :: int
  TCPS_LAST_ACK :: int
  TCPS_LISTEN :: int
  TCPS_CLOSING :: int
  PSUTIL_CONN_NONE :: int
  TCPS_IDLE :: int
  TCPS_BOUND :: int
  AF_UNIX :: int
  SOCK_STREAM :: int
  SOCK_DGRAM :: int
  conn_tmap :: "string \<rightharpoonup> int list \<times> int list"

text \<open>
  Modelled from the spec: the connection statuses \<^verbatim>\<open>_common.CONN_*\<close>, which
  \<^verbatim>\<open>psutil/_common.py\<close> defines; the spec's ConnectionStatus is the closed enumeration
  ESTABLISHED, SYN_SENT, SYN_RECV, FIN_WAIT1, FIN_WAIT2, TIME_WAIT, CLOSE, CLOSE_WAIT,
  LAST_ACK, LISTEN, CLOSING, NONE, IDLE, BOUND.
\<close>

datatype conn_status =
    CONN_ESTABLISHED | CONN_SYN_SENT | CONN_SYN_RECV | CONN_FIN_WAIT1 | CONN_FIN_WAIT2
  | CONN_TIME_WAIT | CONN_CLOSE | CONN_CLOSE_WAIT | CONN_LAST_ACK | CONN_LISTEN
  | CONN_CLOSING | CONN_NONE | CONN_IDLE | CONN_BOUND

text \<open>The dictionary \<^verbatim>\<open>TCP_STATUSES\<close>, its entries in the order of the source (in a
  dictionary display a later entry replaces an earlier one with the same key). Its last
  two values are read from \<^verbatim>\<open>_common\<close> like the others; the strings \<^verbatim>\<open>CONN_IDLE\<close> and
  \<^verbatim>\<open>CONN_BOUND\<close> that the module itself defines are not used by it.\<close>

definition TCP_STATUSES :: "platform \<Rightarrow> int \<rightharpoonup> conn_status" where
  "TCP_STATUSES P = Map.empty
     (TCPS_ESTABLISHED P \<mapsto> CONN_ESTABLISHED,
      TCPS_SYN_SENT P \<mapsto> CONN_SYN_SENT,
      TCPS_SYN_RCVD P \<mapsto> CONN_SYN_RECV,
      TCPS_FIN_WAIT_1 P \<mapsto> CONN_FIN_WAIT1,
      TCPS_FIN_WAIT_2 P \<mapsto> CONN_FIN_WAIT2,
      TCPS_TIME_WAIT P \<mapsto> CONN_TIME_WAIT,
      TCPS_CLOSED P \<mapsto> CONN_CLOSE,
      TCPS_CLOSE_WAIT P \<mapsto> CONN_CLOSE_WAIT,
      TCPS_LAST_ACK P \<mapsto> CONN_LAST_ACK,
      TCPS_LISTEN P \<mapsto> CONN_LISTEN,
      TCPS_CLOSING P \<mapsto> CONN_CLOSING,
      PSUTIL_CONN_NONE P \<mapsto> CONN_NONE,
      TCPS_IDLE P \<mapsto> CONN_IDLE,
      TCPS_BOUND P \<mapsto> CONN_BOUND)"

text \<open>
  A connection record \<^verbatim>\<open>nt_proc_conn(fd, fam, type, laddr, raddr, status)\<close> is a tuple.
  Its addresses are those of the C extension or, for a UNIX socket, strings.
\<close>

datatype 'a address = Address 'a | Path string

type_synonym 'a nt_proc_conn = "int \<times> int \<times> int \<times> 'a address \<times> 'a address \<times> conn_status"

text \<open>
  \<^verbatim>\<open>_get_unix_sockets\<close> is a generator that \<^verbatim>\<open>get_connections\<close> runs to its end inside a
  list comprehension, so it is the function from the output of \<^verbatim>\<open>pfiles PID\<close> to the
  list of what it yields, or to the first exception it raises. The loop is over
  \<^verbatim>\<open>enumerate(lines)\<close>: \<open>i\<close> is the index of the line at the head of the rest.
\<close>

fun get_unix_sockets_loop ::
  "platform \<Rightarrow> string list \<Rightarrow> nat \<Rightarrow> string list \<Rightarrow> exn + 'a nt_proc_conn list" where
  "get_unix_sockets_loop P lines i [] = Inr []"
| "get_unix_sockets_loop P lines i (line0 # rest) =
     (let line = str_lstrip line0 in
      if startswith line ''sockname: AF_UNIX'' then
        (case py_index (str_split_max CHR '' '' 2 line) 2 of
           Inl e \<Rightarrow> Inl e
         | Inr path \<Rightarrow>
             (case py_index lines (int i - 2) of
                Inl e \<Rightarrow> Inl e
              | Inr t \<Rightarrow>
                  (let type' =
                     (if str_strip t = ''SOCK_STREAM'' then SOCK_STREAM P
                      else if str_strip t = ''SOCK_DGRAM'' then SOCK_DGRAM P
                      else - 1)
                   in case get_unix_sockets_loop P lines (Suc i) rest of
                        Inl e \<Rightarrow> Inl e
                      | Inr conns \<Rightarrow>
                          Inr ((- 1, AF_UNIX P, type', Path path, Path '''', CONN_NONE) # conns))))
      else get_unix_sockets_loop P lines (Suc i) rest)"

definition get_unix_sockets ::
  "platform \<Rightarrow> ('w, 'f, 'a) sys \<Rightarrow> Process \<Rightarrow> int \<Rightarrow> ('w, 'a nt_proc_conn list) io" where
  "get_unix_sockets P sys self p =
     io_bind (popen_communicate sys (''pfiles '' @ str_int p)) (\<lambda>(returncode, stdout, stderr).
       if returncode \<noteq> 0 then
         (if str_contains (str_lower stderr) ''permission denied'' then
            io_raise (AccessDenied (pid self) (process_name self))
          else if str_contains (str_lower stderr) ''no such process'' then
            io_raise (NoSuchProcess (pid self) (process_name self))
          else io_raise (RuntimeError stderr))
       else
         (case get_unix_sockets_loop P (drop 2 (str_split CHR 0x0A stdout)) 0
                 (drop 2 (str_split CHR 0x0A stdout)) of
            Inl e \<Rightarrow> io_raise e
          | Inr conns \<Rightarrow> io_return conns))"

text \<open>
  \<^verbatim>\<open>get_connections\<close>: the loop over \<^verbatim>\<open>rawlist\<close> calls nothing; \<^verbatim>\<open>TCP_STATUSES[status]\<close>
  raises \<^verbatim>\<open>KeyError\<close> for a key that is not in the dictionary.
\<close>

fun get_connections_loop ::
  "platform \<Rightarrow> int list \<Rightarrow> int list \<Rightarrow> (int \<times> int \<times> int \<times> 'a \<times> 'a \<times> int) list \<Rightarrow>
   'a nt_proc_conn list \<Rightarrow> exn + 'a nt_proc_conn list" where
  "get_connections_loop P families types [] ret = Inr ret"
| "get_connections_loop P families types ((fd, fam, type', laddr, raddr, status) # rawlist) ret =
     (if fam \<notin> set families then get_connections_loop P families types rawlist ret
      else if type' \<notin> set types then get_connections_loop P families types rawlist ret
      else (case TCP_STATUSES P status of
              None \<Rightarrow> Inl (KeyError status)
            | Some status' \<Rightarrow>
                get_connections_loop P families types rawlist
                  (ret @ [(fd, fam, type', Address laddr, Address raddr, status')])))"

definition get_connections ::
  "platform \<Rightarrow> ('w, 'f, 'a) sys \<Rightarrow> Process \<Rightarrow> string \<Rightarrow> ('w, 'a nt_proc_conn list) io" where
  "get_connections P sys self0 kind = wrap_exceptions (\<lambda>self.
     case conn_tmap P kind of
       None \<Rightarrow> io_raise (ValueError kind)
     | Some (families, types) \<Rightarrow>
         io_bind (get_proc_connections sys (pid self) families types) (\<lambda>rawlist.
         io_bind (if rawlist = [] then os_stat sys (''/proc/'' @ str_int (pid self))
                  else io_return ()) (\<lambda>_.
           case get_connections_loop P families types rawlist [] of
             Inl e \<Rightarrow> io_raise e
           | Inr ret \<Rightarrow>
               if AF_UNIX P \<in> set families then
                 io_bind (get_unix_sockets P sys self (pid self))
                   (\<lambda>conns. io_return (ret @ conns))
               else io_return ret))) self0"

section \<open>An example system\<close>

text \<open>
  Concrete values for the parameters, used to run the definitions. The world of the
  example is the number of calls made so far: \<open>answer r\<close> gives the answer \<open>r\<close> whatever
  the world is, and counts the call. In \<open>example_sys\<close> every call succeeds;
  an example with a failing call overrides a field. \<open>example_platform\<close> gives the
  constants sample values and \<^verbatim>\<open>conn_tmap\<close> five kinds. \<open>example_int\<close> is \<^verbatim>\<open>int\<close> on
  strings of decimal digits.
\<close>

definition answer :: "exn + 'r \<Rightarrow> (nat, 'r) io" where
  "answer r = (\<lambda>calls. (r, Suc calls))"

definition example_sys :: "(nat, int, string) sys" where
  "example_sys =
     \<lparr>get_proc_name_and_args = (\<lambda>p. answer (Inr (''init'', ''/sbin/init -v''))),
      getpriority = (\<lambda>p. answer (Inr 0)),
      setpriority = (\<lambda>p v. answer (Inr ())),
      psposix_pid_exists = (\<lambda>p. answer (Inr True)),
      os_listdir = (\<lambda>path. answer (Inr [])),
      os_readlink = (\<lambda>path. answer (Inr ''/var/log/messages'')),
      os_path_islink = (\<lambda>path. answer (Inr True)),
      os_stat = (\<lambda>path. answer (Inr ())),
      isfile_strict = (\<lambda>path. answer (Inr True)),
      query_process_thread = (\<lambda>p tid. answer (Inr (10, 20))),
      get_proc_memory_maps = (\<lambda>p. answer (Inr [])),
      get_proc_connections = (\<lambda>p families types. answer (Inr [])),
      popen_communicate = (\<lambda>cmd. answer (Inr (0, '''', '''')))\<rparr>"

definition example_platform :: platform where
  "example_platform =
     \<lparr>TCPS_ESTABLISHED = 0, TCPS_SYN_SENT = - 2, TCPS_SYN_RCVD = - 1, TCPS_FIN_WAIT_1 = 2,
      TCPS_FIN_WAIT_2 = 5, TCPS_TIME_WAIT = 6, TCPS_CLOSED = - 6, TCPS_CLOSE_WAIT = 1,
      TCPS_LAST_ACK = 4, TCPS_LISTEN = - 3, TCPS_CLOSING = 3, PSUTIL_CONN_NONE = 128,
      TCPS_IDLE = - 5, TCPS_BOUND = - 4, AF_UNIX = 1, SOCK_STREAM = 2, SOCK_DGRAM = 1,
      conn_tmap = [''tcp'' \<mapsto> ([2, 26], [2]), ''udp'' \<mapsto> ([2, 26], [1]),
                   ''inet'' \<mapsto> ([2, 26], [2, 1]), ''unix'' \<mapsto> ([1], [2, 1]),
                   ''all'' \<mapsto> ([2, 26, 1], [2, 1])]\<rparr>"

definition example_int :: "string \<Rightarrow> exn + int" where
  "example_int s =
     (if s \<noteq> [] \<and> list_all (\<lambda>c. c \<in> set ''0123456789'') s
      then Inr (foldl (\<lambda>n c. 10 * n + (of_char c - 48)) 0 s)
      else Inl (ValueError s))"

section \<open>Answers that hold while a call runs\<close>

text \<open>
  \<open>answers S m r\<close>: in every state of the world that belongs to \<open>S\<close>, the call \<open>m\<close>
  gives the answer \<open>r\<close> and leaves the world in a state of \<open>S\<close>. With \<open>S\<close> as the set
  of the states the world goes through while an accessor runs, this says what the call
  answers whenever the accessor makes it; \<open>S = UNIV\<close> is a call that always answers the
  same.
\<close>

definition answers :: "'w set \<Rightarrow> ('w, 'r) io \<Rightarrow> exn + 'r \<Rightarrow> bool" where
  "answers S m r = (\<forall>w\<in>S. fst (m w) = r \<and> snd (m w) \<in> S)"

section \<open>Properties of the error classifier and the accessors\<close>

text \<open>
  Facts about sequencing and about the classifier that the proofs below share.
\<close>

lemma io_bind_Inr: "m w = (Inr x, w') \<Longrightarrow> io_bind m f w = f x w'"
  by (simp add: io_bind_def)

lemma io_bind_Inl: "m w = (Inl e, w') \<Longrightarrow> io_bind m f w = (Inl e, w')"
  by (simp add: io_bind_def)

lemma wrap_exceptions_Inr:
  "callable self w = (Inr r, w') \<Longrightarrow> wrap_exceptions callable self w = (Inr r, w')"
  by (simp add: wrap_exceptions_def)

lemma wrap_exceptions_gone:
  "callable self w = (Inl (EnvironmentError cls ENOENT), w') \<Longrightarrow>
   wrap_exceptions callable self w = (Inl (NoSuchProcess (pid self) (process_name self)), w')"
  by (simp add: wrap_exceptions_def)

lemma wrap_exceptions_other:
  "callable self w = (Inl e, w') \<Longrightarrow> \<forall>cls err. e \<noteq> EnvironmentError cls err \<Longrightarrow>
   wrap_exceptions callable self w = (Inl e, w')"
  by (cases e) (simp_all add: wrap_exceptions_def)

lemma wrap_exceptions_fst_Inr:
  "fst (callable self w) = Inr r \<Longrightarrow> fst (wrap_exceptions callable self w) = Inr r"
  by (cases "callable self w") (simp add: wrap_exceptions_def)

lemma wrap_exceptions_Inr_iff:
  "wrap_exceptions callable self w = (Inr r, w') \<longleftrightarrow> callable self w = (Inr r, w')"
  by (auto simp: wrap_exceptions_def split: prod.splits sum.splits exn.splits if_splits)

lemma io_bind_Inr_iff:
  "io_bind m f w = (Inr r, w') \<longleftrightarrow> (\<exists>x w1. m w = (Inr x, w1) \<and> f x w1 = (Inr r, w'))"
  by (auto simp: io_bind_def split: prod.splits sum.splits)

text \<open>
  Claim C1. Every accessor of \<^verbatim>\<open>Process\<close> is \<open>wrap_exceptions\<close> applied to its body, and
  for every callable: a result is passed through unchanged; an \<^verbatim>\<open>EnvironmentError\<close>
  whose \<^verbatim>\<open>errno\<close> is \<^verbatim>\<open>ENOENT\<close> or \<^verbatim>\<open>ESRCH\<close> is raised as \<^verbatim>\<open>NoSuchProcess\<close> with the pid
  and the cached name of the handle; one whose \<^verbatim>\<open>errno\<close> is \<^verbatim>\<open>EPERM\<close> or \<^verbatim>\<open>EACCES\<close> is
  raised as \<^verbatim>\<open>AccessDenied\<close> with the same identity; every other exception (an
  \<^verbatim>\<open>EnvironmentError\<close> with another code, or an exception of another kind) is re-raised
  as it is. The world is left as the callable left it.
\<close>

theorem wrap_exceptions_translates:
  "(callable self w = (Inr r, w') \<longrightarrow> wrap_exceptions callable self w = (Inr r, w')) \<and>
   (callable self w = (Inl (EnvironmentError cls err), w') \<and> err \<in> {ENOENT, ESRCH} \<longrightarrow>
      wrap_exceptions callable self w = (Inl (NoSuchProcess (pid self) (process_name self)), w')) \<and>
   (callable self w = (Inl (EnvironmentError cls err), w') \<and> err \<in> {EPERM, EACCES} \<longrightarrow>
      wrap_exceptions callable self w = (Inl (AccessDenied (pid self) (process_name self)), w')) \<and>
   (callable self w = (Inl e, w') \<and>
      (\<forall>c n. e = EnvironmentError c n \<longrightarrow> n \<notin> {ENOENT, ESRCH, EPERM, EACCES}) \<longrightarrow>
      wrap_exceptions callable self w = (Inl e, w'))"
  by (cases e) (auto simp: wrap_exceptions_def ENOENT_def ESRCH_def EPERM_def EACCES_def)

theorem wrap_exceptions_translates_witness:
  "wrap_exceptions (\<lambda>self. getpriority example_sys (pid self))
     \<lparr>pid = 7, process_name = Some ''init''\<rparr> 0 = (Inr 0, 1) \<and>
   wrap_exceptions (\<lambda>self. answer (Inl (EnvironmentError OSError_class ESRCH) :: exn + int))
     \<lparr>pid = 7, process_name = Some ''init''\<rparr> 0 = (Inl (NoSuchProcess 7 (Some ''init'')), 1) \<and>
   wrap_exceptions (\<lambda>self. answer (Inl (EnvironmentError IOError_class EACCES) :: exn + int))
     \<lparr>pid = 7, process_name = Some ''init''\<rparr> 0 = (Inl (AccessDenied 7 (Some ''init'')), 1) \<and>
   wrap_exceptions (\<lambda>self. answer (Inl (EnvironmentError OSError_class 22) :: exn + int))
     \<lparr>pid = 7, process_name = Some ''init''\<rparr> 0 = (Inl (EnvironmentError OSError_class 22), 1) \<and>
   wrap_exceptions (\<lambda>self. answer (Inl (KeyError 99) :: exn + int))
     \<lparr>pid = 7, process_name = Some ''init''\<rparr> 0 = (Inl (KeyError 99), 1)"
  using
    wrap_exceptions_translates[of "\<lambda>self. getpriority example_sys (pid self)"
      "\<lparr>pid = 7, process_name = Some ''init''\<rparr>" "0::nat" "0::int" 1
      OSError_class 0 "KeyError 0"]
    wrap_exceptions_translates[of "\<lambda>self. answer (Inl (EnvironmentError OSError_class ESRCH) :: exn + int)"
      "\<lparr>pid = 7, process_name = Some ''init''\<rparr>" "0::nat" "0::int" 1
      OSError_class ESRCH "KeyError 0"]
    wrap_exceptions_translates[of "\<lambda>self. answer (Inl (EnvironmentError IOError_class EACCES) :: exn + int)"
      "\<lparr>pid = 7, process_name = Some ''init''\<rparr>" "0::nat" "0::int" 1
      IOError_class EACCES "KeyError 0"]
    wrap_exceptions_translates[of "\<lambda>self. answer (Inl (EnvironmentError OSError_class 22) :: exn + int)"
      "\<lparr>pid = 7, process_name = Some ''init''\<rparr>" "0::nat" "0::int" 1
      OSError_class 22 "EnvironmentError OSError_class 22"]
    wrap_exceptions_translates[of "\<lambda>self. answer (Inl (KeyError 99) :: exn + int)"
      "\<lparr>pid = 7, process_name = Some ''init''\<rparr>" "0::nat" "0::int" 1
      OSError_class 0 "KeyError 99"]
  by (simp add: example_sys_def answer_def ENOENT_def ESRCH_def EPERM_def EACCES_def)

text \<open>
  Claim C10. Constructing a \<^verbatim>\<open>Process\<close> succeeds for every pid and leaves the world as
  it is (no call of the operating system): it stores the pid and sets the cached name
  to \<^verbatim>\<open>None\<close>. A pid that denotes no process gives an error only at the first
  accessor: when the process table answers \<^verbatim>\<open>ENOENT\<close>, \<^verbatim>\<open>get_name\<close> on the new handle
  raises \<^verbatim>\<open>NoSuchProcess\<close> with that pid and the name \<^verbatim>\<open>None\<close>.
\<close>

theorem Process_init_no_access:
  "Process_init p w = (Inr \<lparr>pid = p, process_name = None\<rparr>, w) \<and>
   (get_proc_name_and_args sys p w = (Inl (EnvironmentError cls ENOENT), w') \<longrightarrow>
      io_bind (Process_init p) (get_name sys) w = (Inl (NoSuchProcess p None), w'))"
  by (simp add: Process_init_def io_return_def io_bind_def get_name_def wrap_exceptions_def)

theorem Process_init_no_access_witness:
  "Process_init 4242 (0::nat) = (Inr \<lparr>pid = 4242, process_name = None\<rparr>, 0) \<and>
   io_bind (Process_init 4242)
     (get_name (example_sys\<lparr>get_proc_name_and_args :=
        (\<lambda>p. answer (Inl (EnvironmentError OSError_class ENOENT)))\<rparr>)) 0 =
     (Inl (NoSuchProcess 4242 None), 1)"
  using Process_init_no_access[of 4242 "0::nat"
      "example_sys\<lparr>get_proc_name_and_args :=
        (\<lambda>p. answer (Inl (EnvironmentError OSError_class ENOENT)))\<rparr>" OSError_class 1]
  by (simp add: answer_def)

text \<open>
  Claim C9 says that \<^verbatim>\<open>get_exe\<close> reads the command line and then returns the empty
  string. The code looks up \<^verbatim>\<open>self.get_proc_cmdline\<close>, a name that \<^verbatim>\<open>Process\<close> does
  not have (the accessor of the command line is \<^verbatim>\<open>get_cmdline\<close>): every call raises
  \<^verbatim>\<open>AttributeError\<close>, which the classifier re-raises, whatever calling a method does
  and in every world; nothing is read and the empty string is never returned.
\<close>

theorem get_exe_raises_AttributeError:
  "get_exe call self w = (Inl (AttributeError ''get_proc_cmdline''), w)"
  by (simp add: get_exe_def wrap_exceptions_def Process_getattr_def Process_attributes_def
      io_raise_def)

text \<open>
  Claim C8. When \<^verbatim>\<open>getpriority\<close> fails with \<^verbatim>\<open>ENOENT\<close> or \<^verbatim>\<open>ESRCH\<close>, \<^verbatim>\<open>get_nice\<close> asks
  \<^verbatim>\<open>pid_exists\<close>: if the process is there it raises \<^verbatim>\<open>AccessDenied\<close>; if it is not, the
  failure is re-raised and the classifier turns it into \<^verbatim>\<open>NoSuchProcess\<close>.
\<close>

theorem get_nice_quirk:
  assumes "getpriority sys (pid self) w = (Inl (EnvironmentError cls err), w1)"
    and "err \<in> {ENOENT, ESRCH}"
  shows "(pid_exists sys (pid self) w1 = (Inr True, w2) \<longrightarrow>
            get_nice sys self w = (Inl (AccessDenied (pid self) (process_name self)), w2)) \<and>
         (pid_exists sys (pid self) w1 = (Inr False, w2) \<longrightarrow>
            get_nice sys self w = (Inl (NoSuchProcess (pid self) (process_name self)), w2))"
  using assms by (auto simp: get_nice_def wrap_exceptions_def)

theorem get_nice_quirk_witness:
  "get_nice (example_sys\<lparr>getpriority := (\<lambda>p. answer (Inl (EnvironmentError OSError_class ESRCH)))\<rparr>)
     \<lparr>pid = 2, process_name = None\<rparr> 0 = (Inl (AccessDenied 2 None), 2) \<and>
   get_nice (example_sys\<lparr>getpriority := (\<lambda>p. answer (Inl (EnvironmentError OSError_class ESRCH))),
                         psposix_pid_exists := (\<lambda>p. answer (Inr False))\<rparr>)
     \<lparr>pid = 2, process_name = None\<rparr> 0 = (Inl (NoSuchProcess 2 None), 2)"
  using
    get_nice_quirk[of
      "example_sys\<lparr>getpriority := (\<lambda>p. answer (Inl (EnvironmentError OSError_class ESRCH)))\<rparr>"
      "\<lparr>pid = 2, process_name = None\<rparr>" "0::nat" OSError_class ESRCH 1 2]
    get_nice_quirk[of
      "example_sys\<lparr>getpriority := (\<lambda>p. answer (Inl (EnvironmentError OSError_class ESRCH))),
                   psposix_pid_exists := (\<lambda>p. answer (Inr False))\<rparr>"
      "\<lparr>pid = 2, process_name = None\<rparr>" "0::nat" OSError_class ESRCH 1 2]
  by (simp add: pid_exists_def example_sys_def answer_def)

text \<open>
  Claim C7. For a handle whose pid is 2 or 3, \<^verbatim>\<open>set_proc_nice\<close> raises \<^verbatim>\<open>AccessDenied\<close>
  for every value and on every system, and the world is as before the call: the
  priority is not written (in the example \<^verbatim>\<open>setpriority\<close> would have counted a call,
  as it does for pid 4).
\<close>

theorem set_proc_nice_low_pid:
  "pid self \<in> {2, 3} \<Longrightarrow>
   set_proc_nice sys self val w = (Inl (AccessDenied (pid self) (process_name self)), w)"
  by (auto simp: set_proc_nice_def wrap_exceptions_def io_raise_def)

theorem set_proc_nice_low_pid_witness:
  "set_proc_nice example_sys \<lparr>pid = 2, process_name = None\<rparr> 10 0 =
     (Inl (AccessDenied 2 None), 0) \<and>
   set_proc_nice example_sys \<lparr>pid = 3, process_name = Some ''fsflush''\<rparr> (- 5) 0 =
     (Inl (AccessDenied 3 (Some ''fsflush'')), 0) \<and>
   set_proc_nice example_sys \<lparr>pid = 4, process_name = None\<rparr> 10 0 = (Inr (), 1)"
proof -
  have written: "set_proc_nice example_sys \<lparr>pid = 4, process_name = None\<rparr> 10 0 = (Inr (), 1)"
    by (simp add: set_proc_nice_def wrap_exceptions_def example_sys_def answer_def)
  show ?thesis
    using written
      set_proc_nice_low_pid[of "\<lparr>pid = 2, process_name = None\<rparr>" example_sys 10 "0::nat"]
      set_proc_nice_low_pid[of "\<lparr>pid = 3, process_name = Some ''fsflush''\<rparr>" example_sys
        "- 5" "0::nat"]
    by simp
qed

section \<open>Properties of the enumerators\<close>

text \<open>
  What the three loops do on every system, whatever the calls answer. In \<^verbatim>\<open>get_threads\<close>
  the flag \<^verbatim>\<open>hit_enoent\<close> is set at the end exactly when an entry of the listing is
  missing from the list; in \<^verbatim>\<open>get_open_files\<close> a set flag means that an entry is
  missing; \<^verbatim>\<open>get_memory_maps\<close> returns one record for every raw entry.
\<close>

lemma get_threads_loop_flag:
  "get_threads_loop py_int sys p tids ret hit w = (Inr (ret', hit'), w') \<Longrightarrow>
   (hit' \<longleftrightarrow> hit \<or> length ret' < length ret + length tids) \<and>
   length ret' \<le> length ret + length tids"
proof (induction tids arbitrary: ret hit w)
  case Nil
  then show ?case by auto
next
  case (Cons tid tids)
  from Cons.prems obtain n where n: "py_int tid = Inr n"
    by (cases "py_int tid") auto
  obtain r w1 where call: "query_process_thread sys p n w = (r, w1)"
    by (cases "query_process_thread sys p n w") auto
  show ?case
  proof (cases r)
    case (Inr t)
    then have "get_threads_loop py_int sys p tids (ret @ [(n, t)]) hit w1 = (Inr (ret', hit'), w')"
      using Cons.prems n call by (cases t) simp
    from Cons.IH[OF this] show ?thesis by auto
  next
    case (Inl e)
    then have "get_threads_loop py_int sys p tids ret True w1 = (Inr (ret', hit'), w')"
      using Cons.prems n call by (cases e) (auto split: if_splits)
    from Cons.IH[OF this] show ?thesis by auto
  qed
qed

lemma get_open_files_loop_flag:
  "get_open_files_loop py_int sys pathdir fds retlist hit w = (Inr (retlist', hit'), w') \<Longrightarrow>
   (hit' \<longrightarrow> hit \<or> length retlist' < length retlist + length fds) \<and>
   length retlist' \<le> length retlist + length fds"
proof (induction fds arbitrary: retlist hit w)
  case Nil
  then show ?case by auto
next
  case (Cons fd fds)
  from Cons.prems obtain retlist1 hit1 w1
    where step: "get_open_files_loop py_int sys pathdir fds retlist1 hit1 w1 =
        (Inr (retlist', hit'), w')"
      and acc: "retlist1 = retlist \<and> (hit1 = hit \<or> hit1) \<or>
        (\<exists>x. retlist1 = retlist @ [x]) \<and> hit1 = hit"
    by (auto split: prod.splits sum.splits exn.splits env_class.splits if_splits)
  from Cons.IH[OF step] acc show ?case by auto
qed

lemma get_memory_maps_loop_length:
  "get_memory_maps_loop sys p rawlist retlist hit w = (Inr (retlist', hit'), w') \<Longrightarrow>
   length retlist' = length retlist + length rawlist"
proof (induction rawlist arbitrary: retlist hit w)
  case Nil
  then show ?case by auto
next
  case (Cons item rawlist)
  obtain addr addrsize perm name rss anon locked
    where item: "item = (addr, addrsize, perm, name, rss, anon, locked)"
    by (cases item) auto
  show ?case
  proof (cases "startswith name ''[''")
    case True
    then have "get_memory_maps_loop sys p rawlist
        (retlist @ [(toaddr addr addrsize, perm, name, rss, anon, locked)]) hit w =
        (Inr (retlist', hit'), w')"
      using Cons.prems item by simp
    from Cons.IH[OF this] show ?thesis by simp
  next
    case False
    obtain r w1 where call:
      "os_readlink sys (''/proc/'' @ str_int p @ ''/path/'' @ name) w = (r, w1)"
      by (cases "os_readlink sys (''/proc/'' @ str_int p @ ''/path/'' @ name) w") auto
    show ?thesis
    proof (cases r)
      case (Inr t)
      then have "get_memory_maps_loop sys p rawlist
          (retlist @ [(toaddr addr addrsize, perm, t, rss, anon, locked)]) hit w1 =
          (Inr (retlist', hit'), w')"
        using Cons.prems item False call by simp
      from Cons.IH[OF this] show ?thesis by simp
    next
      case (Inl e)
      then have "get_memory_maps_loop sys p rawlist
          (retlist @ [(toaddr addr addrsize, perm,
             ''/proc/'' @ str_int p @ ''/path/'' @ name, rss, anon, locked)]) True w1 =
          (Inr (retlist', hit'), w')"
        using Cons.prems item False call
        by (cases e) (auto split: if_splits env_class.splits)
      from Cons.IH[OF this] show ?thesis by simp
    qed
  qed
qed

lemma get_memory_maps_length:
  assumes "get_proc_memory_maps sys (pid self) w = (Inr rawlist, w1)"
    and "get_memory_maps sys self w = (Inr retlist, w')"
  shows "length retlist = length rawlist"
proof -
  from assms(2) have "\<exists>hit w2. get_memory_maps_loop sys (pid self) rawlist [] False w1 =
      (Inr (retlist, hit), w2)"
    unfolding get_memory_maps_def
    by (auto simp: wrap_exceptions_Inr_iff io_bind_Inr_iff assms(1) io_return_def
        split: if_splits)
  then show ?thesis using get_memory_maps_loop_length by fastforce
qed

text \<open>
  What the three loops compute when, in the states the world goes through, every call
  made for an entry has a fixed answer: the list that is built and the value of the
  flag at the end.
\<close>

lemma answersD: "answers S m r \<Longrightarrow> w \<in> S \<Longrightarrow> \<exists>w'. m w = (r, w') \<and> w' \<in> S"
  by (metis answers_def prod.collapse)

lemma get_threads_loop_answers:
  assumes "\<forall>s\<in>set names. py_int s = Inr (tid_of s)"
    and "\<forall>s\<in>set names. answers S (query_process_thread sys p (tid_of s))
           (case cpu s of Some t \<Rightarrow> Inr t | None \<Rightarrow> Inl (EnvironmentError cls ENOENT))"
    and "w \<in> S"
  shows "\<exists>w'\<in>S. get_threads_loop py_int sys p names ret hit w =
           (Inr (ret @ map (\<lambda>s. (tid_of s, the (cpu s))) (filter (\<lambda>s. cpu s \<noteq> None) names),
                 hit \<or> (\<exists>s\<in>set names. cpu s = None)), w')"
  using assms
proof (induction names arbitrary: ret hit w)
  case Nil
  then show ?case by simp
next
  case (Cons s names)
  have int: "py_int s = Inr (tid_of s)" using Cons.prems(1) by simp
  have IH: "\<And>ret hit w. w \<in> S \<Longrightarrow>
      \<exists>w'\<in>S. get_threads_loop py_int sys p names ret hit w =
           (Inr (ret @ map (\<lambda>s. (tid_of s, the (cpu s))) (filter (\<lambda>s. cpu s \<noteq> None) names),
                 hit \<or> (\<exists>s\<in>set names. cpu s = None)), w')"
    using Cons.IH Cons.prems(1,2) by simp
  have call: "answers S (query_process_thread sys p (tid_of s))
           (case cpu s of Some t \<Rightarrow> Inr t | None \<Rightarrow> Inl (EnvironmentError cls ENOENT))"
    using Cons.prems(2) by simp
  show ?case
  proof (cases "cpu s")
    case None
    then obtain w1 where w1: "w1 \<in> S"
      "query_process_thread sys p (tid_of s) w = (Inl (EnvironmentError cls ENOENT), w1)"
      using answersD[OF call Cons.prems(3)] by auto
    from IH[OF w1(1), of ret True] show ?thesis using None int w1(2) by simp
  next
    case (Some t)
    then obtain w1 where w1: "w1 \<in> S" "query_process_thread sys p (tid_of s) w = (Inr t, w1)"
      using answersD[OF call Cons.prems(3)] by auto
    from IH[OF w1(1), of "ret @ [(tid_of s, t)]" hit] show ?thesis
      using Some int w1(2) by (cases t) simp
  qed
qed

lemma get_open_files_loop_answers:
  assumes "\<forall>fd\<in>set fds. answers S (os_path_islink sys (os_path_join pathdir fd)) (Inr (is_link fd))"
    and "\<forall>fd\<in>set fds. is_link fd \<longrightarrow>
           answers S (os_readlink sys (os_path_join pathdir fd))
             (case target fd of Some f \<Rightarrow> Inr f
              | None \<Rightarrow> Inl (EnvironmentError OSError_class ENOENT))"
    and "\<forall>fd\<in>set fds. is_link fd \<longrightarrow> target fd \<noteq> None \<longrightarrow>
           answers S (isfile_strict sys (the (target fd))) (Inr (is_file fd))"
    and "\<forall>fd\<in>set fds. is_link fd \<longrightarrow> target fd \<noteq> None \<longrightarrow> is_file fd \<longrightarrow>
           py_int fd = Inr (number fd)"
    and "w \<in> S"
  shows "\<exists>w'\<in>S. get_open_files_loop py_int sys pathdir fds retlist hit w =
           (Inr (retlist @ map (\<lambda>fd. (the (target fd), number fd))
                   (filter (\<lambda>fd. is_link fd \<and> target fd \<noteq> None \<and> is_file fd) fds),
                 hit \<or> (\<exists>fd\<in>set fds. is_link fd \<and> target fd = None)), w')"
  using assms
proof (induction fds arbitrary: retlist hit w)
  case Nil
  then show ?case by simp
next
  case (Cons fd fds)
  have IH: "\<And>retlist hit w. w \<in> S \<Longrightarrow>
      \<exists>w'\<in>S. get_open_files_loop py_int sys pathdir fds retlist hit w =
           (Inr (retlist @ map (\<lambda>fd. (the (target fd), number fd))
                   (filter (\<lambda>fd. is_link fd \<and> target fd \<noteq> None \<and> is_file fd) fds),
                 hit \<or> (\<exists>fd\<in>set fds. is_link fd \<and> target fd = None)), w')"
    using Cons.IH Cons.prems(1,2,3,4) by simp
  have "answers S (os_path_islink sys (os_path_join pathdir fd)) (Inr (is_link fd))"
    using Cons.prems(1) by simp
  from answersD[OF this Cons.prems(5)]
  obtain w1 where w1: "w1 \<in> S"
    "os_path_islink sys (os_path_join pathdir fd) w = (Inr (is_link fd), w1)"
    by auto
  show ?case
  proof (cases "is_link fd")
    case False
    from IH[OF w1(1), of retlist hit] show ?thesis using False w1(2) by simp
  next
    case True
    then have "answers S (os_readlink sys (os_path_join pathdir fd))
             (case target fd of Some f \<Rightarrow> Inr f
              | None \<Rightarrow> Inl (EnvironmentError OSError_class ENOENT))"
      using Cons.prems(2) by simp
    note readlink = answersD[OF this w1(1)]
    show ?thesis
    proof (cases "target fd")
      case None
      then obtain w2 where w2: "w2 \<in> S"
        "os_readlink sys (os_path_join pathdir fd) w1 =
           (Inl (EnvironmentError OSError_class ENOENT), w2)"
        using readlink by auto
      from IH[OF w2(1), of retlist True] show ?thesis using True None w1(2) w2(2) by simp
    next
      case (Some f)
      then obtain w2 where w2: "w2 \<in> S"
        "os_readlink sys (os_path_join pathdir fd) w1 = (Inr f, w2)"
        using readlink by auto
      have "answers S (isfile_strict sys f) (Inr (is_file fd))"
        using True Some Cons.prems(3) by simp
      from answersD[OF this w2(1)]
      obtain w3 where w3: "w3 \<in> S" "isfile_strict sys f w2 = (Inr (is_file fd), w3)"
        by auto
      show ?thesis
      proof (cases "is_file fd")
        case False
        from IH[OF w3(1), of retlist hit] show ?thesis
          using False True Some w1(2) w2(2) w3(2) by simp
      next
        case is_file: True
        then have "py_int fd = Inr (number fd)" using True Some Cons.prems(4) by simp
        with IH[OF w3(1), of "retlist @ [(f, number fd)]" hit] show ?thesis
          using is_file True Some w1(2) w2(2) w3(2) by simp
      qed
    qed
  qed
qed

lemma get_memory_maps_loop_answers:
  assumes "\<forall>(addr, addrsize, perm, name, rss, anon, locked)\<in>set rawlist.
             \<not> startswith name ''['' \<longrightarrow>
             answers S (os_readlink sys (''/proc/'' @ str_int p @ ''/path/'' @ name))
               (case target name of Some t \<Rightarrow> Inr t
                | None \<Rightarrow> Inl (EnvironmentError OSError_class ENOENT))"
    and "w \<in> S"
  shows "\<exists>w'\<in>S. get_memory_maps_loop sys p rawlist retlist hit w =
           (Inr (retlist @ map (\<lambda>(addr, addrsize, perm, name, rss, anon, locked).
                    (toaddr addr addrsize, perm,
                     (if startswith name ''['' then name
                      else case target name of Some t \<Rightarrow> t
                           | None \<Rightarrow> ''/proc/'' @ str_int p @ ''/path/'' @ name),
                     rss, anon, locked)) rawlist,
                 hit \<or> (\<exists>(addr, addrsize, perm, name, rss, anon, locked)\<in>set rawlist.
                          \<not> startswith name ''['' \<and> target name = None)), w')"
  using assms
proof (induction rawlist arbitrary: retlist hit w)
  case Nil
  then show ?case by simp
next
  case (Cons item rawlist)
  obtain addr addrsize perm name rss anon locked
    where item: "item = (addr, addrsize, perm, name, rss, anon, locked)"
    by (cases item) auto
  have tl: "\<forall>(addr, addrsize, perm, name, rss, anon, locked)\<in>set rawlist.
             \<not> startswith name ''['' \<longrightarrow>
             answers S (os_readlink sys (''/proc/'' @ str_int p @ ''/path/'' @ name))
               (case target name of Some t \<Rightarrow> Inr t
                | None \<Rightarrow> Inl (EnvironmentError OSError_class ENOENT))"
    using Cons.prems(1) by (meson list.set_intros(2))
  note IH = Cons.IH[OF tl]
  have hd: "\<not> startswith name ''['' \<Longrightarrow>
             answers S (os_readlink sys (''/proc/'' @ str_int p @ ''/path/'' @ name))
               (case target name of Some t \<Rightarrow> Inr t
                | None \<Rightarrow> Inl (EnvironmentError OSError_class ENOENT))"
    using Cons.prems(1) item by auto
  show ?case
  proof (cases "startswith name ''[''")
    case True
    from IH[OF Cons.prems(2),
        of "retlist @ [(toaddr addr addrsize, perm, name, rss, anon, locked)]" hit]
    show ?thesis using True item by simp
  next
    case False
    note readlink = answersD[OF hd[OF False] Cons.prems(2)]
    show ?thesis
    proof (cases "target name")
      case None
      then obtain w1 where w1: "w1 \<in> S"
        "os_readlink sys (''/proc/'' @ str_int p @ ''/path/'' @ name) w =
           (Inl (EnvironmentError OSError_class ENOENT), w1)"
        using readlink by auto
      from IH[OF w1(1),
          of "retlist @ [(toaddr addr addrsize, perm,
                ''/proc/'' @ str_int p @ ''/path/'' @ name, rss, anon, locked)]" True]
      show ?thesis using False None item w1(2) by simp
    next
      case (Some t)
      then obtain w1 where w1: "w1 \<in> S"
        "os_readlink sys (''/proc/'' @ str_int p @ ''/path/'' @ name) w = (Inr t, w1)"
        using readlink by auto
      from IH[OF w1(1), of "retlist @ [(toaddr addr addrsize, perm, t, rss, anon, locked)]" hit]
      show ?thesis using False Some item w1(2) by simp
    qed
  qed
qed

lemma get_threads_answers:
  assumes "os_listdir sys (''/proc/'' @ str_int (pid self) @ ''/lwp'') w = (Inr names, w1)"
    and "w1 \<in> S"
    and "\<forall>s\<in>set names. py_int s = Inr (tid_of s)"
    and "\<forall>s\<in>set names. answers S (query_process_thread sys (pid self) (tid_of s))
           (case cpu s of Some t \<Rightarrow> Inr t | None \<Rightarrow> Inl (EnvironmentError cls ENOENT))"
    and "answers S (os_stat sys (''/proc/'' @ str_int (pid self))) (Inr ())"
  shows "fst (get_threads py_int sys self w) =
         Inr (map (\<lambda>s. (tid_of s, the (cpu s))) (filter (\<lambda>s. cpu s \<noteq> None) names))"
proof -
  let ?ret = "map (\<lambda>s. (tid_of s, the (cpu s))) (filter (\<lambda>s. cpu s \<noteq> None) names)"
  let ?hit = "\<exists>s\<in>set names. cpu s = None"
  obtain w2 where w2: "w2 \<in> S" and loop:
    "get_threads_loop py_int sys (pid self) names [] False w1 = (Inr (?ret, ?hit), w2)"
    using get_threads_loop_answers[OF assms(3,4,2), of "[]" False] by auto
  obtain w3 where stat: "os_stat sys (''/proc/'' @ str_int (pid self)) w2 = (Inr (), w3)"
    using answersD[OF assms(5) w2] by blast
  show ?thesis
    unfolding get_threads_def
    by (rule wrap_exceptions_fst_Inr, cases ?hit)
       (simp_all only: io_bind_def io_return_def assms(1) loop stat prod.case sum.case
          if_True if_False fst_conv)
qed

lemma get_open_files_answers:
  assumes "os_listdir sys (''/proc/'' @ str_int (pid self) @ ''/fd'') w = (Inr fds, w1)"
    and "w1 \<in> S"
    and "\<forall>fd\<in>set fds. answers S
           (os_path_islink sys (os_path_join (''/proc/'' @ str_int (pid self) @ ''/path'') fd))
           (Inr (is_link fd))"
    and "\<forall>fd\<in>set fds. is_link fd \<longrightarrow>
           answers S
             (os_readlink sys (os_path_join (''/proc/'' @ str_int (pid self) @ ''/path'') fd))
             (case target fd of Some f \<Rightarrow> Inr f
              | None \<Rightarrow> Inl (EnvironmentError OSError_class ENOENT))"
    and "\<forall>fd\<in>set fds. is_link fd \<longrightarrow> target fd \<noteq> None \<longrightarrow>
           answers S (isfile_strict sys (the (target fd))) (Inr (is_file fd))"
    and "\<forall>fd\<in>set fds. is_link fd \<longrightarrow> target fd \<noteq> None \<longrightarrow> is_file fd \<longrightarrow>
           py_int fd = Inr (number fd)"
    and "answers S (os_stat sys (''/proc/'' @ str_int (pid self))) (Inr ())"
  shows "fst (get_open_files py_int sys self w) =
         Inr (map (\<lambda>fd. (the (target fd), number fd))
                (filter (\<lambda>fd. is_link fd \<and> target fd \<noteq> None \<and> is_file fd) fds))"
proof -
  let ?ret = "map (\<lambda>fd. (the (target fd), number fd))
                (filter (\<lambda>fd. is_link fd \<and> target fd \<noteq> None \<and> is_file fd) fds)"
  let ?hit = "\<exists>fd\<in>set fds. is_link fd \<and> target fd = None"
  obtain w2 where w2: "w2 \<in> S" and loop:
    "get_open_files_loop py_int sys (''/proc/'' @ str_int (pid self) @ ''/path'')
       fds [] False w1 = (Inr (?ret, ?hit), w2)"
    using get_open_files_loop_answers[OF assms(3,4,5,6,2), of "[]" False] by auto
  obtain w3 where stat: "os_stat sys (''/proc/'' @ str_int (pid self)) w2 = (Inr (), w3)"
    using answersD[OF assms(7) w2] by blast
  show ?thesis
    unfolding get_open_files_def
    by (rule wrap_exceptions_fst_Inr, cases ?hit)
       (simp_all only: io_bind_def io_return_def assms(1) loop stat prod.case sum.case
          if_True if_False fst_conv)
qed

lemma get_memory_maps_answers:
  assumes "get_proc_memory_maps sys (pid self) w = (Inr rawlist, w1)"
    and "w1 \<in> S"
    and "\<forall>(addr, addrsize, perm, name, rss, anon, locked)\<in>set rawlist.
           \<not> startswith name ''['' \<longrightarrow>
           answers S (os_readlink sys (''/proc/'' @ str_int (pid self) @ ''/path/'' @ name))
             (case target name of Some t \<Rightarrow> Inr t
              | None \<Rightarrow> Inl (EnvironmentError OSError_class ENOENT))"
    and "answers S (os_stat sys (''/proc/'' @ str_int (pid self))) (Inr ())"
  shows "fst (get_memory_maps sys self w) =
         Inr (map (\<lambda>(addr, addrsize, perm, name, rss, anon, locked).
                (toaddr addr addrsize, perm,
                 (if startswith name ''['' then name
                  else case target name of Some t \<Rightarrow> t
                       | None \<Rightarrow> ''/proc/'' @ str_int (pid self) @ ''/path/'' @ name),
                 rss, anon, locked)) rawlist)"
proof -
  let ?ret = "map (\<lambda>(addr, addrsize, perm, name, rss, anon, locked).
                (toaddr addr addrsize, perm,
                 (if startswith name ''['' then name
                  else case target name of Some t \<Rightarrow> t
                       | None \<Rightarrow> ''/proc/'' @ str_int (pid self) @ ''/path/'' @ name),
                 rss, anon, locked)) rawlist"
  let ?hit = "\<exists>(addr, addrsize, perm, name, rss, anon, locked)\<in>set rawlist.
                \<not> startswith name ''['' \<and> target name = None"
  obtain w2 where w2: "w2 \<in> S" and loop:
    "get_memory_maps_loop sys (pid self) rawlist [] False w1 = (Inr (?ret, ?hit), w2)"
    using get_memory_maps_loop_answers[OF assms(3,2), of "[]" False] by auto
  obtain w3 where stat: "os_stat sys (''/proc/'' @ str_int (pid self)) w2 = (Inr (), w3)"
    using answersD[OF assms(4) w2] by blast
  show ?thesis
    unfolding get_memory_maps_def
    by (rule wrap_exceptions_fst_Inr, cases ?hit)
       (simp_all only: io_bind_def io_return_def assms(1) loop stat prod.case sum.case
          if_True if_False fst_conv)
qed

text \<open>
  Claim C2 says that an enumerator leaves out every entry whose detail read failed with
  \<^verbatim>\<open>ENOENT\<close>. \<^verbatim>\<open>get_memory_maps\<close> does not: with one mapping named \<^verbatim>\<open>a.out\<close> whose link
  cannot be read, and the process alive, the list it returns still holds the mapping,
  under the path of the unresolved link (after three calls: the raw list, the link, the
  check that the process exists). It is not the empty list.
\<close>

theorem memory_maps_keeps_unresolved_entry:
  "get_memory_maps
     (example_sys\<lparr>get_proc_memory_maps := (\<lambda>p. answer (Inr [(4096, 8192, ''r-x'', ''a.out'', 4, 0, 0)])),
                  os_readlink := (\<lambda>path. answer (Inl (EnvironmentError OSError_class ENOENT)))\<rparr>)
     \<lparr>pid = 7, process_name = None\<rparr> 0 =
   (Inr [(''1000-2000'', ''r-x'', ''/proc/7/path/a.out'', 4, 0, 0)], 3) \<and>
   fst (get_memory_maps
     (example_sys\<lparr>get_proc_memory_maps := (\<lambda>p. answer (Inr [(4096, 8192, ''r-x'', ''a.out'', 4, 0, 0)])),
                  os_readlink := (\<lambda>path. answer (Inl (EnvironmentError OSError_class ENOENT)))\<rparr>)
     \<lparr>pid = 7, process_name = None\<rparr> 0) \<noteq> Inr []"
  by (simp add: get_memory_maps_def wrap_exceptions_def io_bind_def io_return_def example_sys_def
      answer_def startswith_def toaddr_def py_hex_def hexdigits.simps str_strip_chars_def
      str_int_def digits.simps ENOENT_def)

text \<open>
  Claim C2, amended. Let \<open>S\<close> hold the states the world goes through after the
  listing. In these states let every call made for an entry have a fixed answer, let the
  only failure of a detail read be \<^verbatim>\<open>ENOENT\<close>, and let the process exist (\<^verbatim>\<open>os.stat\<close> of
  its directory succeeds). Then no enumerator raises, and
  \<^item> \<^verbatim>\<open>get_threads\<close> returns the threads whose times could be read, in the order of the
    listing: it leaves out exactly the failed entries;
  \<^item> \<^verbatim>\<open>get_open_files\<close> leaves out the failed entries, and also the entries that are
    no symbolic link or whose target \<^verbatim>\<open>isfile_strict\<close> rejects: it returns the others
    with their targets and descriptor numbers;
  \<^item> \<^verbatim>\<open>get_memory_maps\<close> leaves out nothing (\<open>get_memory_maps_length\<close>): a mapping
    whose link could not be read is returned with the path of the link as its name.
\<close>

theorem enumerators_partial_miss_alive:
  "(os_listdir sys (''/proc/'' @ str_int (pid self) @ ''/lwp'') w = (Inr names, w1) \<and> w1 \<in> S \<and>
    (\<forall>s\<in>set names. py_int s = Inr (tid_of s)) \<and>
    (\<forall>s\<in>set names. answers S (query_process_thread sys (pid self) (tid_of s))
       (case cpu s of Some t \<Rightarrow> Inr t | None \<Rightarrow> Inl (EnvironmentError cls ENOENT))) \<and>
    answers S (os_stat sys (''/proc/'' @ str_int (pid self))) (Inr ())
    \<longrightarrow> fst (get_threads py_int sys self w) =
        Inr (map (\<lambda>s. (tid_of s, the (cpu s))) (filter (\<lambda>s. cpu s \<noteq> None) names))) \<and>
   (os_listdir sys (''/proc/'' @ str_int (pid self) @ ''/fd'') w = (Inr fds, w1) \<and> w1 \<in> S \<and>
    (\<forall>fd\<in>set fds. answers S
       (os_path_islink sys (os_path_join (''/proc/'' @ str_int (pid self) @ ''/path'') fd))
       (Inr (is_link fd))) \<and>
    (\<forall>fd\<in>set fds. is_link fd \<longrightarrow>
       answers S (os_readlink sys (os_path_join (''/proc/'' @ str_int (pid self) @ ''/path'') fd))
         (case target fd of Some f \<Rightarrow> Inr f
          | None \<Rightarrow> Inl (EnvironmentError OSError_class ENOENT))) \<and>
    (\<forall>fd\<in>set fds. is_link fd \<longrightarrow> target fd \<noteq> None \<longrightarrow>
       answers S (isfile_strict sys (the (target fd))) (Inr (is_file fd))) \<and>
    (\<forall>fd\<in>set fds. is_link fd \<longrightarrow> target fd \<noteq> None \<longrightarrow> is_file fd \<longrightarrow>
       py_int fd = Inr (number fd)) \<and>
    answers S (os_stat sys (''/proc/'' @ str_int (pid self))) (Inr ())
    \<longrightarrow> fst (get_open_files py_int sys self w) =
        Inr (map (\<lambda>fd. (the (target fd), number fd))
               (filter (\<lambda>fd. is_link fd \<and> target fd \<noteq> None \<and> is_file fd) fds))) \<and>
   (get_proc_memory_maps sys (pid self) w = (Inr rawlist, w1) \<and> w1 \<in> S \<and>
    (\<forall>(addr, addrsize, perm, name, rss, anon, locked)\<in>set rawlist.
       \<not> startswith name ''['' \<longrightarrow>
       answers S (os_readlink sys (''/proc/'' @ str_int (pid self) @ ''/path/'' @ name))
         (case resolved name of Some t \<Rightarrow> Inr t
          | None \<Rightarrow> Inl (EnvironmentError OSError_class ENOENT))) \<and>
    answers S (os_stat sys (''/proc/'' @ str_int (pid self))) (Inr ())
    \<longrightarrow> fst (get_memory_maps sys self w) =
        Inr (map (\<lambda>(addr, addrsize, perm, name, rss, anon, locked).
               (toaddr addr addrsize, perm,
                (if startswith name ''['' then name
                 else case resolved name of Some t \<Rightarrow> t
                      | None \<Rightarrow> ''/proc/'' @ str_int (pid self) @ ''/path/'' @ name),
                rss, anon, locked)) rawlist))"
proof (intro conjI impI)
  assume "os_listdir sys (''/proc/'' @ str_int (pid self) @ ''/lwp'') w = (Inr names, w1) \<and> w1 \<in> S \<and>
    (\<forall>s\<in>set names. py_int s = Inr (tid_of s)) \<and>
    (\<forall>s\<in>set names. answers S (query_process_thread sys (pid self) (tid_of s))
       (case cpu s of Some t \<Rightarrow> Inr t | None \<Rightarrow> Inl (EnvironmentError cls ENOENT))) \<and>
    answers S (os_stat sys (''/proc/'' @ str_int (pid self))) (Inr ())"
  then show "fst (get_threads py_int sys self w) =
        Inr (map (\<lambda>s. (tid_of s, the (cpu s))) (filter (\<lambda>s. cpu s \<noteq> None) names))"
    by (intro get_threads_answers[where ?w1.0 = w1 and cls = cls and S = S]) simp_all
next
  assume "os_listdir sys (''/proc/'' @ str_int (pid self) @ ''/fd'') w = (Inr fds, w1) \<and> w1 \<in> S \<and>
    (\<forall>fd\<in>set fds. answers S
       (os_path_islink sys (os_path_join (''/proc/'' @ str_int (pid self) @ ''/path'') fd))
       (Inr (is_link fd))) \<and>
    (\<forall>fd\<in>set fds. is_link fd \<longrightarrow>
       answers S (os_readlink sys (os_path_join (''/proc/'' @ str_int (pid self) @ ''/path'') fd))
         (case target fd of Some f \<Rightarrow> Inr f
          | None \<Rightarrow> Inl (EnvironmentError OSError_class ENOENT))) \<and>
    (\<forall>fd\<in>set fds. is_link fd \<longrightarrow> target fd \<noteq> None \<longrightarrow>
       answers S (isfile_strict sys (the (target fd))) (Inr (is_file fd))) \<and>
    (\<forall>fd\<in>set fds. is_link fd \<longrightarrow> target fd \<noteq> None \<longrightarrow> is_file fd \<longrightarrow>
       py_int fd = Inr (number fd)) \<and>
    answers S (os_stat sys (''/proc/'' @ str_int (pid self))) (Inr ())"
  then show "fst (get_open_files py_int sys self w) =
        Inr (map (\<lambda>fd. (the (target fd), number fd))
               (filter (\<lambda>fd. is_link fd \<and> target fd \<noteq> None \<and> is_file fd) fds))"
    by (intro get_open_files_answers[where ?w1.0 = w1 and S = S]) blast+
next
  assume "get_proc_memory_maps sys (pid self) w = (Inr rawlist, w1) \<and> w1 \<in> S \<and>
    (\<forall>(addr, addrsize, perm, name, rss, anon, locked)\<in>set rawlist.
       \<not> startswith name ''['' \<longrightarrow>
       answers S (os_readlink sys (''/proc/'' @ str_int (pid self) @ ''/path/'' @ name))
         (case resolved name of Some t \<Rightarrow> Inr t
          | None \<Rightarrow> Inl (EnvironmentError OSError_class ENOENT))) \<and>
    answers S (os_stat sys (''/proc/'' @ str_int (pid self))) (Inr ())"
  then show "fst (get_memory_maps sys self w) =
        Inr (map (\<lambda>(addr, addrsize, perm, name, rss, anon, locked).
               (toaddr addr addrsize, perm,
                (if startswith name ''['' then name
                 else case resolved name of Some t \<Rightarrow> t
                      | None \<Rightarrow> ''/proc/'' @ str_int (pid self) @ ''/path/'' @ name),
                rss, anon, locked)) rawlist)"
    by (intro get_memory_maps_answers[where ?w1.0 = w1 and S = S]) blast+
qed

theorem enumerators_partial_miss_alive_witness:
  "fst (get_threads example_int
     (example_sys\<lparr>os_listdir := (\<lambda>path. answer (Inr [''1'', ''2'', ''3''])),
        query_process_thread := (\<lambda>p tid. answer
          (if tid = 2 then Inl (EnvironmentError OSError_class ENOENT)
           else Inr (10 * tid, 20 * tid)))\<rparr>)
     \<lparr>pid = 7, process_name = None\<rparr> 0) = Inr [(1, 10, 20), (3, 30, 60)] \<and>
   fst (get_open_files example_int
     (example_sys\<lparr>os_listdir := (\<lambda>path. answer (Inr [''0'', ''3'', ''4'', ''5''])),
        os_path_islink := (\<lambda>path. answer (Inr (path \<noteq> ''/proc/7/path/0''))),
        os_readlink := (\<lambda>path. answer
          (if path = ''/proc/7/path/4'' then Inl (EnvironmentError OSError_class ENOENT)
           else if path = ''/proc/7/path/5'' then Inr ''/dev/null''
           else Inr ''/var/log/messages'')),
        isfile_strict := (\<lambda>path. answer (Inr (path \<noteq> ''/dev/null'')))\<rparr>)
     \<lparr>pid = 7, process_name = None\<rparr> 0) = Inr [(''/var/log/messages'', 3)] \<and>
   fst (get_memory_maps
     (example_sys\<lparr>get_proc_memory_maps := (\<lambda>p. answer (Inr
          [(4096, 8192, ''r-x'', ''a.out'', 4, 0, 0),
           (65536, 131072, ''rw-'', ''[heap]'', 8, 8, 0),
           (131072, 196608, ''r--'', ''ufs.1.2.3'', 2, 0, 0)])),
        os_readlink := (\<lambda>path. answer
          (if path = ''/proc/7/path/a.out'' then Inr ''/usr/bin/ls''
           else Inl (EnvironmentError OSError_class ENOENT)))\<rparr>)
     \<lparr>pid = 7, process_name = None\<rparr> 0) =
     Inr [(''1000-2000'', ''r-x'', ''/usr/bin/ls'', 4, 0, 0),
          (''10000-20000'', ''rw-'', ''[heap]'', 8, 8, 0),
          (''20000-30000'', ''r--'', ''/proc/7/path/ufs.1.2.3'', 2, 0, 0)]"
proof -
  have threads: "fst (get_threads example_int
     (example_sys\<lparr>os_listdir := (\<lambda>path. answer (Inr [''1'', ''2'', ''3''])),
        query_process_thread := (\<lambda>p tid. answer
          (if tid = 2 then Inl (EnvironmentError OSError_class ENOENT)
           else Inr (10 * tid, 20 * tid)))\<rparr>)
     \<lparr>pid = 7, process_name = None\<rparr> 0) = Inr [(1, 10, 20), (3, 30, 60)]"
    using enumerators_partial_miss_alive[where
        sys = "example_sys\<lparr>os_listdir := (\<lambda>path. answer (Inr [''1'', ''2'', ''3''])),
          query_process_thread := (\<lambda>p tid. answer
            (if tid = 2 then Inl (EnvironmentError OSError_class ENOENT)
             else Inr (10 * tid, 20 * tid)))\<rparr>"
        and self = "\<lparr>pid = 7, process_name = None\<rparr>" and w = 0 and ?w1.0 = 1 and S = UNIV
        and names = "[''1'', ''2'', ''3'']" and py_int = example_int
        and tid_of = "\<lambda>s. of_char (hd s) - 48"
        and cpu = "\<lambda>s. if s = ''2'' then None
                      else Some (10 * (of_char (hd s) - 48), 20 * (of_char (hd s) - 48))"
        and cls = OSError_class, THEN conjunct1]
    by (simp add: example_sys_def answer_def answers_def example_int_def str_int_def digits.simps)
  have files: "fst (get_open_files example_int
     (example_sys\<lparr>os_listdir := (\<lambda>path. answer (Inr [''0'', ''3'', ''4'', ''5''])),
        os_path_islink := (\<lambda>path. answer (Inr (path \<noteq> ''/proc/7/path/0''))),
        os_readlink := (\<lambda>path. answer
          (if path = ''/proc/7/path/4'' then Inl (EnvironmentError OSError_class ENOENT)
           else if path = ''/proc/7/path/5'' then Inr ''/dev/null''
           else Inr ''/var/log/messages'')),
        isfile_strict := (\<lambda>path. answer (Inr (path \<noteq> ''/dev/null'')))\<rparr>)
     \<lparr>pid = 7, process_name = None\<rparr> 0) = Inr [(''/var/log/messages'', 3)]"
    using enumerators_partial_miss_alive[where
        sys = "example_sys\<lparr>os_listdir := (\<lambda>path. answer (Inr [''0'', ''3'', ''4'', ''5''])),
          os_path_islink := (\<lambda>path. answer (Inr (path \<noteq> ''/proc/7/path/0''))),
          os_readlink := (\<lambda>path. answer
            (if path = ''/proc/7/path/4'' then Inl (EnvironmentError OSError_class ENOENT)
             else if path = ''/proc/7/path/5'' then Inr ''/dev/null''
             else Inr ''/var/log/messages'')),
          isfile_strict := (\<lambda>path. answer (Inr (path \<noteq> ''/dev/null'')))\<rparr>"
        and self = "\<lparr>pid = 7, process_name = None\<rparr>" and w = 0 and ?w1.0 = 1 and S = UNIV
        and fds = "[''0'', ''3'', ''4'', ''5'']" and py_int = example_int
        and is_link = "\<lambda>fd. fd \<noteq> ''0''"
        and target = "\<lambda>fd. if fd = ''4'' then None else if fd = ''5'' then Some ''/dev/null''
                            else Some ''/var/log/messages''"
        and is_file = "\<lambda>fd. fd \<noteq> ''5''"
        and number = "\<lambda>s. of_char (hd s) - 48", THEN conjunct2, THEN conjunct1]
    by (simp add: example_sys_def answer_def answers_def example_int_def str_int_def digits.simps
        os_path_join_def startswith_def)
  have maps: "fst (get_memory_maps
     (example_sys\<lparr>get_proc_memory_maps := (\<lambda>p. answer (Inr
          [(4096, 8192, ''r-x'', ''a.out'', 4, 0, 0),
           (65536, 131072, ''rw-'', ''[heap]'', 8, 8, 0),
           (131072, 196608, ''r--'', ''ufs.1.2.3'', 2, 0, 0)])),
        os_readlink := (\<lambda>path. answer
          (if path = ''/proc/7/path/a.out'' then Inr ''/usr/bin/ls''
           else Inl (EnvironmentError OSError_class ENOENT)))\<rparr>)
     \<lparr>pid = 7, process_name = None\<rparr> 0) =
     Inr [(''1000-2000'', ''r-x'', ''/usr/bin/ls'', 4, 0, 0),
          (''10000-20000'', ''rw-'', ''[heap]'', 8, 8, 0),
          (''20000-30000'', ''r--'', ''/proc/7/path/ufs.1.2.3'', 2, 0, 0)]"
    using enumerators_partial_miss_alive[where
        sys = "example_sys\<lparr>get_proc_memory_maps := (\<lambda>p. answer (Inr
            [(4096, 8192, ''r-x'', ''a.out'', 4, 0, 0),
             (65536, 131072, ''rw-'', ''[heap]'', 8, 8, 0),
             (131072, 196608, ''r--'', ''ufs.1.2.3'', 2, 0, 0)])),
          os_readlink := (\<lambda>path. answer
            (if path = ''/proc/7/path/a.out'' then Inr ''/usr/bin/ls''
             else Inl (EnvironmentError OSError_class ENOENT)))\<rparr>"
        and self = "\<lparr>pid = 7, process_name = None\<rparr>" and w = 0 and ?w1.0 = 1 and S = UNIV
        and rawlist = "[(4096, 8192, ''r-x'', ''a.out'', 4, 0, 0),
             (65536, 131072, ''rw-'', ''[heap]'', 8, 8, 0),
             (131072, 196608, ''r--'', ''ufs.1.2.3'', 2, 0, 0)]"
        and resolved = "\<lambda>name. if name = ''a.out'' then Some ''/usr/bin/ls'' else None",
        THEN conjunct2, THEN conjunct2]
    by (simp add: example_sys_def answer_def answers_def str_int_def digits.simps startswith_def
        toaddr_def py_hex_def hexdigits.simps str_strip_chars_def)
  show ?thesis using threads files maps by simp
qed

text \<open>
  Claim C3. In each of the three enumerators, when the listing succeeded, the loop over
  the entries ran to its end with the flag \<^verbatim>\<open>hit_enoent\<close> set, and \<^verbatim>\<open>os.stat\<close> of the
  directory of the process then fails with \<^verbatim>\<open>ENOENT\<close>, the call raises \<^verbatim>\<open>NoSuchProcess\<close>
  with the identity of the handle; the list built by the loop is not returned. (The flag
  is set when a detail read failed with \<^verbatim>\<open>ENOENT\<close>: see \<open>get_threads_loop_flag\<close> and
  the lemmas on fixed answers above.)
\<close>

theorem enumerators_partial_miss_process_gone:
  "(os_listdir sys (''/proc/'' @ str_int (pid self) @ ''/lwp'') w = (Inr tids, w1) \<and>
    get_threads_loop py_int sys (pid self) tids [] False w1 = (Inr (ret, True), w2) \<and>
    os_stat sys (''/proc/'' @ str_int (pid self)) w2 = (Inl (EnvironmentError cls ENOENT), w3)
    \<longrightarrow> get_threads py_int sys self w =
        (Inl (NoSuchProcess (pid self) (process_name self)), w3)) \<and>
   (os_listdir sys (''/proc/'' @ str_int (pid self) @ ''/fd'') w = (Inr fds, w1) \<and>
    get_open_files_loop py_int sys (''/proc/'' @ str_int (pid self) @ ''/path'') fds [] False w1 =
      (Inr (retlist, True), w2) \<and>
    os_stat sys (''/proc/'' @ str_int (pid self)) w2 = (Inl (EnvironmentError cls ENOENT), w3)
    \<longrightarrow> get_open_files py_int sys self w =
        (Inl (NoSuchProcess (pid self) (process_name self)), w3)) \<and>
   (get_proc_memory_maps sys (pid self) w = (Inr rawlist, w1) \<and>
    get_memory_maps_loop sys (pid self) rawlist [] False w1 = (Inr (maplist, True), w2) \<and>
    os_stat sys (''/proc/'' @ str_int (pid self)) w2 = (Inl (EnvironmentError cls ENOENT), w3)
    \<longrightarrow> get_memory_maps sys self w =
        (Inl (NoSuchProcess (pid self) (process_name self)), w3))"
proof (intro conjI impI; elim conjE)
  assume "os_listdir sys (''/proc/'' @ str_int (pid self) @ ''/lwp'') w = (Inr tids, w1)"
    and "get_threads_loop py_int sys (pid self) tids [] False w1 = (Inr (ret, True), w2)"
    and "os_stat sys (''/proc/'' @ str_int (pid self)) w2 = (Inl (EnvironmentError cls ENOENT), w3)"
  then show "get_threads py_int sys self w =
        (Inl (NoSuchProcess (pid self) (process_name self)), w3)"
    unfolding get_threads_def
    by (intro wrap_exceptions_gone[where cls = cls])
       (simp only: io_bind_def prod.case sum.case if_True)
next
  assume "os_listdir sys (''/proc/'' @ str_int (pid self) @ ''/fd'') w = (Inr fds, w1)"
    and "get_open_files_loop py_int sys (''/proc/'' @ str_int (pid self) @ ''/path'') fds [] False w1 =
      (Inr (retlist, True), w2)"
    and "os_stat sys (''/proc/'' @ str_int (pid self)) w2 = (Inl (EnvironmentError cls ENOENT), w3)"
  then show "get_open_files py_int sys self w =
        (Inl (NoSuchProcess (pid self) (process_name self)), w3)"
    unfolding get_open_files_def
    by (intro wrap_exceptions_gone[where cls = cls])
       (simp only: io_bind_def prod.case sum.case if_True)
next
  assume "get_proc_memory_maps sys (pid self) w = (Inr rawlist, w1)"
    and "get_memory_maps_loop sys (pid self) rawlist [] False w1 = (Inr (maplist, True), w2)"
    and "os_stat sys (''/proc/'' @ str_int (pid self)) w2 = (Inl (EnvironmentError cls ENOENT), w3)"
  then show "get_memory_maps sys self w =
        (Inl (NoSuchProcess (pid self) (process_name self)), w3)"
    unfolding get_memory_maps_def
    by (intro wrap_exceptions_gone[where cls = cls])
       (simp only: io_bind_def prod.case sum.case if_True)
qed

theorem enumerators_partial_miss_process_gone_witness:
  "get_threads example_int
     (example_sys\<lparr>os_listdir := (\<lambda>path. answer (Inr [''1'', ''2''])),
        query_process_thread := (\<lambda>p tid. answer
          (if tid = 2 then Inl (EnvironmentError OSError_class ENOENT) else Inr (10, 20))),
        os_stat := (\<lambda>path. answer (Inl (EnvironmentError OSError_class ENOENT)))\<rparr>)
     \<lparr>pid = 7, process_name = None\<rparr> 0 = (Inl (NoSuchProcess 7 None), 4) \<and>
   get_open_files example_int
     (example_sys\<lparr>os_listdir := (\<lambda>path. answer (Inr [''3'', ''4''])),
        os_readlink := (\<lambda>path. answer
          (if path = ''/proc/7/path/4'' then Inl (EnvironmentError OSError_class ENOENT)
           else Inr ''/var/log/messages'')),
        os_stat := (\<lambda>path. answer (Inl (EnvironmentError OSError_class ENOENT)))\<rparr>)
     \<lparr>pid = 7, process_name = None\<rparr> 0 = (Inl (NoSuchProcess 7 None), 7) \<and>
   get_memory_maps
     (example_sys\<lparr>get_proc_memory_maps := (\<lambda>p. answer (Inr
          [(4096, 8192, ''r-x'', ''a.out'', 4, 0, 0)])),
        os_readlink := (\<lambda>path. answer (Inl (EnvironmentError OSError_class ENOENT))),
        os_stat := (\<lambda>path. answer (Inl (EnvironmentError OSError_class ENOENT)))\<rparr>)
     \<lparr>pid = 7, process_name = None\<rparr> 0 = (Inl (NoSuchProcess 7 None), 3)"
proof -
  have threads: "get_threads example_int
     (example_sys\<lparr>os_listdir := (\<lambda>path. answer (Inr [''1'', ''2''])),
        query_process_thread := (\<lambda>p tid. answer
          (if tid = 2 then Inl (EnvironmentError OSError_class ENOENT) else Inr (10, 20))),
        os_stat := (\<lambda>path. answer (Inl (EnvironmentError OSError_class ENOENT)))\<rparr>)
     \<lparr>pid = 7, process_name = None\<rparr> 0 = (Inl (NoSuchProcess 7 None), 4)"
    using enumerators_partial_miss_process_gone[where
        sys = "example_sys\<lparr>os_listdir := (\<lambda>path. answer (Inr [''1'', ''2''])),
          query_process_thread := (\<lambda>p tid. answer
            (if tid = 2 then Inl (EnvironmentError OSError_class ENOENT) else Inr (10, 20))),
          os_stat := (\<lambda>path. answer (Inl (EnvironmentError OSError_class ENOENT)))\<rparr>"
        and self = "\<lparr>pid = 7, process_name = None\<rparr>" and w = 0 and ?w1.0 = 1
        and ?w2.0 = 3 and ?w3.0 = 4 and cls = OSError_class
        and tids = "[''1'', ''2'']" and py_int = example_int and ret = "[(1, 10, 20)]",
        THEN conjunct1]
    by (simp add: example_sys_def answer_def example_int_def str_int_def digits.simps)
  have files: "get_open_files example_int
     (example_sys\<lparr>os_listdir := (\<lambda>path. answer (Inr [''3'', ''4''])),
        os_readlink := (\<lambda>path. answer
          (if path = ''/proc/7/path/4'' then Inl (EnvironmentError OSError_class ENOENT)
           else Inr ''/var/log/messages'')),
        os_stat := (\<lambda>path. answer (Inl (EnvironmentError OSError_class ENOENT)))\<rparr>)
     \<lparr>pid = 7, process_name = None\<rparr> 0 = (Inl (NoSuchProcess 7 None), 7)"
    using enumerators_partial_miss_process_gone[where
        sys = "example_sys\<lparr>os_listdir := (\<lambda>path. answer (Inr [''3'', ''4''])),
          os_readlink := (\<lambda>path. answer
            (if path = ''/proc/7/path/4'' then Inl (EnvironmentError OSError_class ENOENT)
             else Inr ''/var/log/messages'')),
          os_stat := (\<lambda>path. answer (Inl (EnvironmentError OSError_class ENOENT)))\<rparr>"
        and self = "\<lparr>pid = 7, process_name = None\<rparr>" and w = 0 and ?w1.0 = 1
        and ?w2.0 = 6 and ?w3.0 = 7 and cls = OSError_class
        and fds = "[''3'', ''4'']" and py_int = example_int
        and retlist = "[(''/var/log/messages'', 3)]",
        THEN conjunct2, THEN conjunct1]
    by (simp add: example_sys_def answer_def example_int_def str_int_def digits.simps
        os_path_join_def startswith_def)
  have maps: "get_memory_maps
     (example_sys\<lparr>get_proc_memory_maps := (\<lambda>p. answer (Inr
          [(4096, 8192, ''r-x'', ''a.out'', 4, 0, 0)])),
        os_readlink := (\<lambda>path. answer (Inl (EnvironmentError OSError_class ENOENT))),
        os_stat := (\<lambda>path. answer (Inl (EnvironmentError OSError_class ENOENT)))\<rparr>)
     \<lparr>pid = 7, process_name = None\<rparr> 0 = (Inl (NoSuchProcess 7 None), 3)"
    using enumerators_partial_miss_process_gone[where
        sys = "example_sys\<lparr>get_proc_memory_maps := (\<lambda>p. answer (Inr
            [(4096, 8192, ''r-x'', ''a.out'', 4, 0, 0)])),
          os_readlink := (\<lambda>path. answer (Inl (EnvironmentError OSError_class ENOENT))),
          os_stat := (\<lambda>path. answer (Inl (EnvironmentError OSError_class ENOENT)))\<rparr>"
        and self = "\<lparr>pid = 7, process_name = None\<rparr>" and w = 0 and ?w1.0 = 1
        and ?w2.0 = 2 and ?w3.0 = 3 and cls = OSError_class
        and rawlist = "[(4096, 8192, ''r-x'', ''a.out'', 4, 0, 0)]"
        and maplist = "[(''1000-2000'', ''r-x'', ''/proc/7/path/a.out'', 4, 0, 0)]",
        THEN conjunct2, THEN conjunct2]
    by (simp add: example_sys_def answer_def str_int_def digits.simps startswith_def
        toaddr_def py_hex_def hexdigits.simps str_strip_chars_def)
  show ?thesis using threads files maps by simp
qed

section \<open>Properties of the connection enumerator\<close>

text \<open>
  The loop over the raw connections either stops at the first entry that passes both
  filters and whose status is no key of \<^verbatim>\<open>TCP_STATUSES\<close>, or it returns the entries
  that pass the filters, each with the status the dictionary gives.
\<close>

lemma get_connections_loop_KeyError:
  "\<exists>(fd, fam, type', laddr, raddr, status)\<in>set rawlist.
     fam \<in> set families \<and> type' \<in> set types \<and> status \<notin> dom (TCP_STATUSES P) \<Longrightarrow>
   \<exists>(fd, fam, type', laddr, raddr, status)\<in>set rawlist.
     fam \<in> set families \<and> type' \<in> set types \<and> status \<notin> dom (TCP_STATUSES P) \<and>
     get_connections_loop P families types rawlist ret = Inl (KeyError status)"
proof (induction rawlist arbitrary: ret)
  case Nil
  then show ?case by simp
next
  case (Cons item rawlist)
  obtain fd fam type' laddr raddr status
    where item: "item = (fd, fam, type', laddr, raddr, status)"
    by (cases item) auto
  show ?case
  proof (cases "fam \<in> set families \<and> type' \<in> set types")
    case pass: True
    show ?thesis
    proof (cases "TCP_STATUSES P status")
      case None
      then show ?thesis using item pass by (auto simp: domIff)
    next
      case (Some st)
      then have "\<exists>(fd, fam, type', laddr, raddr, status)\<in>set rawlist.
         fam \<in> set families \<and> type' \<in> set types \<and> status \<notin> dom (TCP_STATUSES P)"
        using Cons.prems item by auto
      from Cons.IH[OF this, of "ret @ [(fd, fam, type', Address laddr, Address raddr, st)]"]
      show ?thesis using item pass Some by auto
    qed
  next
    case False
    then have "\<exists>(fd, fam, type', laddr, raddr, status)\<in>set rawlist.
         fam \<in> set families \<and> type' \<in> set types \<and> status \<notin> dom (TCP_STATUSES P)"
      using Cons.prems item by auto
    from Cons.IH[OF this, of ret]
    show ?thesis using item False by auto
  qed
qed

lemma get_connections_loop_Inr:
  "get_connections_loop P families types rawlist ret = Inr r \<Longrightarrow>
   r = ret @ map (\<lambda>(fd, fam, type', laddr, raddr, status).
                (fd, fam, type', Address laddr, Address raddr, the (TCP_STATUSES P status)))
             (filter (\<lambda>(fd, fam, type', laddr, raddr, status).
                fam \<in> set families \<and> type' \<in> set types) rawlist) \<and>
   (\<forall>(fd, fam, type', laddr, raddr, status)\<in>set rawlist.
      fam \<in> set families \<and> type' \<in> set types \<longrightarrow> status \<in> dom (TCP_STATUSES P))"
proof (induction rawlist arbitrary: ret)
  case Nil
  then show ?case by simp
next
  case (Cons item rawlist)
  obtain fd fam type' laddr raddr status
    where item: "item = (fd, fam, type', laddr, raddr, status)"
    by (cases item) auto
  show ?case
  proof (cases "fam \<in> set families \<and> type' \<in> set types")
    case pass: True
    show ?thesis
    proof (cases "TCP_STATUSES P status")
      case None
      then show ?thesis using Cons.prems item pass by simp
    next
      case (Some st)
      then have "get_connections_loop P families types rawlist
          (ret @ [(fd, fam, type', Address laddr, Address raddr, st)]) = Inr r"
        using Cons.prems item pass by simp
      from Cons.IH[OF this] show ?thesis using item pass Some by auto
    qed
  next
    case False
    then have "get_connections_loop P families types rawlist ret = Inr r"
      using Cons.prems item by (auto split: if_splits)
    from Cons.IH[OF this] show ?thesis using item False by auto
  qed
qed

text \<open>
  Claim C4. A kind that is no key of \<^verbatim>\<open>conn_tmap\<close> makes \<^verbatim>\<open>get_connections\<close> raise
  \<^verbatim>\<open>ValueError\<close>; the classifier leaves it as it is, and the world is as before the call
  (on every system): nothing was enumerated.
\<close>

theorem get_connections_invalid_kind:
  "kind \<notin> dom (conn_tmap P) \<Longrightarrow>
   get_connections P sys self kind w = (Inl (ValueError kind), w)"
  by (cases "conn_tmap P kind") (auto simp: get_connections_def wrap_exceptions_def io_raise_def)

theorem get_connections_invalid_kind_witness:
  "get_connections example_platform example_sys \<lparr>pid = 7, process_name = None\<rparr> ''tcp7'' 0 =
     (Inl (ValueError ''tcp7''), 0)"
  using get_connections_invalid_kind[of "''tcp7''" example_platform example_sys
      "\<lparr>pid = 7, process_name = None\<rparr>" "0::nat"]
  by (simp add: example_platform_def)

text \<open>
  Claim C5. For a valid kind and an empty raw list, \<^verbatim>\<open>get_connections\<close> calls \<^verbatim>\<open>os.stat\<close>
  on the directory of the process next. If that fails with \<^verbatim>\<open>ENOENT\<close> the call raises
  \<^verbatim>\<open>NoSuchProcess\<close>. If it succeeds the result is the empty list, or for a kind with
  the family \<^verbatim>\<open>AF_UNIX\<close> whatever the UNIX sockets give. And the call returns a list
  only if the check succeeded.
\<close>

theorem get_connections_empty_rawlist:
  assumes "conn_tmap P kind = Some (families, types)"
    and "get_proc_connections sys (pid self) families types w = (Inr [], w1)"
  shows "(os_stat sys (''/proc/'' @ str_int (pid self)) w1 = (Inl (EnvironmentError cls ENOENT), w2) \<longrightarrow>
            get_connections P sys self kind w =
              (Inl (NoSuchProcess (pid self) (process_name self)), w2)) \<and>
         (os_stat sys (''/proc/'' @ str_int (pid self)) w1 = (Inr (), w2) \<longrightarrow>
            get_connections P sys self kind w =
              (if AF_UNIX P \<in> set families
               then wrap_exceptions (\<lambda>self. get_unix_sockets P sys self (pid self)) self w2
               else (Inr [], w2))) \<and>
         ((\<exists>ret w'. get_connections P sys self kind w = (Inr ret, w')) \<longrightarrow>
            (\<exists>w2. os_stat sys (''/proc/'' @ str_int (pid self)) w1 = (Inr (), w2)))"
proof (intro conjI impI)
  assume "os_stat sys (''/proc/'' @ str_int (pid self)) w1 = (Inl (EnvironmentError cls ENOENT), w2)"
  then show "get_connections P sys self kind w =
      (Inl (NoSuchProcess (pid self) (process_name self)), w2)"
    unfolding get_connections_def
    by (intro wrap_exceptions_gone[where cls = cls])
       (simp only: assms io_bind_def prod.case sum.case option.case if_True simp_thms)
next
  assume stat: "os_stat sys (''/proc/'' @ str_int (pid self)) w1 = (Inr (), w2)"
  have body: "(\<lambda>self. case conn_tmap P kind of
       None \<Rightarrow> io_raise (ValueError kind)
     | Some (families, types) \<Rightarrow>
         io_bind (get_proc_connections sys (pid self) families types) (\<lambda>rawlist.
         io_bind (if rawlist = [] then os_stat sys (''/proc/'' @ str_int (pid self))
                  else io_return ()) (\<lambda>_.
           case get_connections_loop P families types rawlist [] of
             Inl e \<Rightarrow> io_raise e
           | Inr ret \<Rightarrow>
               if AF_UNIX P \<in> set families then
                 io_bind (get_unix_sockets P sys self (pid self))
                   (\<lambda>conns. io_return (ret @ conns))
               else io_return ret))) self w =
     (if AF_UNIX P \<in> set families then get_unix_sockets P sys self (pid self) w2
      else (Inr [], w2))"
    using assms stat
    by (cases "get_unix_sockets P sys self (pid self) w2";
        cases "fst (get_unix_sockets P sys self (pid self) w2)")
       (auto simp: io_bind_def io_return_def)
  show "get_connections P sys self kind w =
      (if AF_UNIX P \<in> set families
       then wrap_exceptions (\<lambda>self. get_unix_sockets P sys self (pid self)) self w2
       else (Inr [], w2))"
    unfolding get_connections_def wrap_exceptions_def[of _ self] body
    by (simp only: if_distrib[of "\<lambda>x. case_prod _ x"] prod.case sum.case cong: if_cong)
next
  assume "\<exists>ret w'. get_connections P sys self kind w = (Inr ret, w')"
  then show "\<exists>w2. os_stat sys (''/proc/'' @ str_int (pid self)) w1 = (Inr (), w2)"
    unfolding get_connections_def
    by (auto simp only: wrap_exceptions_Inr_iff io_bind_Inr_iff assms option.case prod.case
        if_True prod.inject sum.inject simp_thms unit_eq)
qed

theorem get_connections_empty_rawlist_witness:
  "get_connections example_platform
     (example_sys\<lparr>os_stat := (\<lambda>path. answer (Inl (EnvironmentError OSError_class ENOENT)))\<rparr>)
     \<lparr>pid = 7, process_name = None\<rparr> ''tcp'' 0 = (Inl (NoSuchProcess 7 None), 2) \<and>
   get_connections example_platform example_sys \<lparr>pid = 7, process_name = None\<rparr> ''tcp'' 0 =
     (Inr [], 2) \<and>
   (\<exists>w2. os_stat example_sys ''/proc/7'' 1 = (Inr (), w2))"
proof -
  have gone: "get_connections example_platform
     (example_sys\<lparr>os_stat := (\<lambda>path. answer (Inl (EnvironmentError OSError_class ENOENT)))\<rparr>)
     \<lparr>pid = 7, process_name = None\<rparr> ''tcp'' 0 = (Inl (NoSuchProcess 7 None), 2)"
    using get_connections_empty_rawlist[where P = example_platform
        and sys = "example_sys\<lparr>os_stat :=
          (\<lambda>path. answer (Inl (EnvironmentError OSError_class ENOENT)))\<rparr>"
        and self = "\<lparr>pid = 7, process_name = None\<rparr>" and kind = "''tcp''"
        and families = "[2, 26]" and types = "[2]" and w = 0 and ?w1.0 = 1 and ?w2.0 = 2
        and cls = OSError_class, THEN conjunct1]
    by (simp add: example_platform_def example_sys_def answer_def str_int_def digits.simps)
  have alive: "get_connections example_platform example_sys
     \<lparr>pid = 7, process_name = None\<rparr> ''tcp'' 0 = (Inr [], 2)"
    using get_connections_empty_rawlist[where P = example_platform and sys = example_sys
        and self = "\<lparr>pid = 7, process_name = None\<rparr>" and kind = "''tcp''"
        and families = "[2, 26]" and types = "[2]" and w = 0 and ?w1.0 = 1 and ?w2.0 = 2
        and cls = OSError_class, THEN conjunct2, THEN conjunct1]
    by (simp add: example_platform_def example_sys_def answer_def str_int_def digits.simps)
  have checked: "\<exists>w2. os_stat example_sys ''/proc/7'' 1 = (Inr (), w2)"
    using alive get_connections_empty_rawlist[where P = example_platform and sys = example_sys
        and self = "\<lparr>pid = 7, process_name = None\<rparr>" and kind = "''tcp''"
        and families = "[2, 26]" and types = "[2]" and w = 0 and ?w1.0 = 1 and ?w2.0 = 2
        and cls = OSError_class, THEN conjunct2, THEN conjunct2]
    by (simp add: example_platform_def example_sys_def answer_def str_int_def digits.simps)
  show ?thesis using gone alive checked by simp
qed

text \<open>
  Claim C6. For a valid kind: if some raw entry passes the family and type filters with
  a status that is no key of \<^verbatim>\<open>TCP_STATUSES\<close>, the call raises \<^verbatim>\<open>KeyError\<close> with such a
  status (right after the raw list was fetched), and the classifier leaves it as it is.
  If the call returns a list, every entry that passes the filters has a status of the
  table, and the list starts with these entries, each with the status the table gives
  for its code; what follows are the UNIX sockets.
\<close>

theorem get_connections_status_lookup:
  assumes "conn_tmap P kind = Some (families, types)"
    and "get_proc_connections sys (pid self) families types w = (Inr rawlist, w1)"
  shows "((\<exists>(fd, fam, type', laddr, raddr, status)\<in>set rawlist.
            fam \<in> set families \<and> type' \<in> set types \<and> status \<notin> dom (TCP_STATUSES P)) \<longrightarrow>
          (\<exists>(fd, fam, type', laddr, raddr, status)\<in>set rawlist.
            fam \<in> set families \<and> type' \<in> set types \<and> status \<notin> dom (TCP_STATUSES P) \<and>
            get_connections P sys self kind w = (Inl (KeyError status), w1))) \<and>
         (\<forall>ret w'. get_connections P sys self kind w = (Inr ret, w') \<longrightarrow>
            (\<forall>(fd, fam, type', laddr, raddr, status)\<in>set rawlist.
               fam \<in> set families \<and> type' \<in> set types \<longrightarrow> status \<in> dom (TCP_STATUSES P)) \<and>
            (\<exists>unix. ret =
               map (\<lambda>(fd, fam, type', laddr, raddr, status).
                      (fd, fam, type', Address laddr, Address raddr, the (TCP_STATUSES P status)))
                   (filter (\<lambda>(fd, fam, type', laddr, raddr, status).
                      fam \<in> set families \<and> type' \<in> set types) rawlist) @ unix))"
proof (intro conjI impI allI)
  assume bad: "\<exists>(fd, fam, type', laddr, raddr, status)\<in>set rawlist.
            fam \<in> set families \<and> type' \<in> set types \<and> status \<notin> dom (TCP_STATUSES P)"
  then have ne: "rawlist \<noteq> []" by auto
  from get_connections_loop_KeyError[OF bad, of "[]"]
  obtain fd fam type' laddr raddr status
    where item: "(fd, fam, type', laddr, raddr, status) \<in> set rawlist"
      "fam \<in> set families" "type' \<in> set types" "status \<notin> dom (TCP_STATUSES P)"
    and loop: "get_connections_loop P families types rawlist [] = Inl (KeyError status)"
    by blast
  have "get_connections P sys self kind w = (Inl (KeyError status), w1)"
    unfolding get_connections_def
    by (rule wrap_exceptions_other)
       (simp_all add: assms io_bind_def io_return_def io_raise_def ne loop)
  then show "\<exists>(fd, fam, type', laddr, raddr, status)\<in>set rawlist.
            fam \<in> set families \<and> type' \<in> set types \<and> status \<notin> dom (TCP_STATUSES P) \<and>
            get_connections P sys self kind w = (Inl (KeyError status), w1)"
    using item by blast
next
  fix ret w'
  assume res: "get_connections P sys self kind w = (Inr ret, w')"
  from res have "\<exists>r0 unix. get_connections_loop P families types rawlist [] = Inr r0 \<and>
      ret = r0 @ unix"
    unfolding get_connections_def
    by (auto simp: wrap_exceptions_Inr_iff io_bind_Inr_iff assms io_raise_def io_return_def
        split: sum.splits if_splits)
  then obtain r0 unix
    where loop: "get_connections_loop P families types rawlist [] = Inr r0"
      and ret: "ret = r0 @ unix"
    by blast
  note inv = get_connections_loop_Inr[OF loop]
  show "\<forall>(fd, fam, type', laddr, raddr, status)\<in>set rawlist.
               fam \<in> set families \<and> type' \<in> set types \<longrightarrow> status \<in> dom (TCP_STATUSES P)"
    using inv by blast
  show "\<exists>unix. ret =
               map (\<lambda>(fd, fam, type', laddr, raddr, status).
                      (fd, fam, type', Address laddr, Address raddr, the (TCP_STATUSES P status)))
                   (filter (\<lambda>(fd, fam, type', laddr, raddr, status).
                      fam \<in> set families \<and> type' \<in> set types) rawlist) @ unix"
    using inv ret by simp
qed

theorem get_connections_status_lookup_witness:
  "get_connections example_platform
     (example_sys\<lparr>get_proc_connections := (\<lambda>p families types. answer (Inr
        [(3, 2, 2, ''10.0.0.1:22'', ''10.0.0.2:5000'', 0),
         (4, 2, 2, ''10.0.0.1:80'', '''', 99)]))\<rparr>)
     \<lparr>pid = 7, process_name = None\<rparr> ''tcp'' 0 = (Inl (KeyError 99), 1) \<and>
   get_connections example_platform
     (example_sys\<lparr>get_proc_connections := (\<lambda>p families types. answer (Inr
        [(3, 2, 2, ''10.0.0.1:22'', ''10.0.0.2:5000'', 0),
         (5, 2, 1, ''10.0.0.1:53'', '''', 99)]))\<rparr>)
     \<lparr>pid = 7, process_name = None\<rparr> ''tcp'' 0 =
     (Inr [(3, 2, 2, Address ''10.0.0.1:22'', Address ''10.0.0.2:5000'', CONN_ESTABLISHED)], 1) \<and>
   0 \<in> dom (TCP_STATUSES example_platform)"
proof -
  have unknown: "get_connections example_platform
     (example_sys\<lparr>get_proc_connections := (\<lambda>p families types. answer (Inr
        [(3, 2, 2, ''10.0.0.1:22'', ''10.0.0.2:5000'', 0),
         (4, 2, 2, ''10.0.0.1:80'', '''', 99)]))\<rparr>)
     \<lparr>pid = 7, process_name = None\<rparr> ''tcp'' 0 = (Inl (KeyError 99), 1)"
    using get_connections_status_lookup[where P = example_platform
        and sys = "example_sys\<lparr>get_proc_connections := (\<lambda>p families types. answer (Inr
          [(3, 2, 2, ''10.0.0.1:22'', ''10.0.0.2:5000'', 0),
           (4, 2, 2, ''10.0.0.1:80'', '''', 99)]))\<rparr>"
        and self = "\<lparr>pid = 7, process_name = None\<rparr>" and kind = "''tcp''"
        and families = "[2, 26]" and types = "[2]" and w = 0 and ?w1.0 = 1
        and rawlist = "[(3, 2, 2, ''10.0.0.1:22'', ''10.0.0.2:5000'', 0),
           (4, 2, 2, ''10.0.0.1:80'', '''', 99)]", THEN conjunct1]
    by (simp add: example_platform_def example_sys_def answer_def TCP_STATUSES_def)
  have known: "get_connections example_platform
     (example_sys\<lparr>get_proc_connections := (\<lambda>p families types. answer (Inr
        [(3, 2, 2, ''10.0.0.1:22'', ''10.0.0.2:5000'', 0),
         (5, 2, 1, ''10.0.0.1:53'', '''', 99)]))\<rparr>)
     \<lparr>pid = 7, process_name = None\<rparr> ''tcp'' 0 =
     (Inr [(3, 2, 2, Address ''10.0.0.1:22'', Address ''10.0.0.2:5000'', CONN_ESTABLISHED)], 1)"
    by (simp add: get_connections_def wrap_exceptions_def io_bind_def io_return_def
        example_platform_def example_sys_def answer_def TCP_STATUSES_def)
  have "0 \<in> dom (TCP_STATUSES example_platform)"
    using known get_connections_status_lookup[where P = example_platform
        and sys = "example_sys\<lparr>get_proc_connections := (\<lambda>p families types. answer (Inr
          [(3, 2, 2, ''10.0.0.1:22'', ''10.0.0.2:5000'', 0),
           (5, 2, 1, ''10.0.0.1:53'', '''', 99)]))\<rparr>"
        and self = "\<lparr>pid = 7, process_name = None\<rparr>" and kind = "''tcp''"
        and families = "[2, 26]" and types = "[2]" and w = 0 and ?w1.0 = 1
        and rawlist = "[(3, 2, 2, ''10.0.0.1:22'', ''10.0.0.2:5000'', 0),
           (5, 2, 1, ''10.0.0.1:53'', '''', 99)]", THEN conjunct2]
    by (simp add: example_platform_def example_sys_def answer_def)
  then show ?thesis using unknown known by simp
qed

end
